theory Spec2Isabelle
  imports Main
begin

section \<open>Python values as the bridge sees them\<close>

text \<open>
  A Python \<open>str\<close> is a sequence of Unicode code points and a \<open>bytes\<close> object a sequence
  of octets; both are lists of naturals here. \<open>lit\<close> turns an ASCII literal of the source
  into its code points.
\<close>

type_synonym pystr = "nat list"
type_synonym pybytes = "nat list"

definition lit :: "string \<Rightarrow> pystr" where
  "lit s = map of_char s"

text \<open>
  A double is a sign, a mantissa and a binary exponent (the value is
  \<open>\<plusminus> m * 2 ^ e\<close>), an infinity or a NaN. \<open>request.json\<close> yields the values of
  \<open>json.loads\<close>: \<open>None\<close>, booleans, unbounded integers, doubles, strings, lists and
  dictionaries. A dictionary is an association list read with \<open>map_of\<close>.
\<close>

datatype pyfloat = Fin bool nat int | Inf bool | NaN

datatype pyval =
    PNone
  | PBool bool
  | PInt int
  | PFloat pyfloat
  | PStr pystr
  | PList "pyval list"
  | PDict "(pystr \<times> pyval) list"

text \<open>
  The exceptions the bridge can meet. \<open>WinError\<close> is \<open>pywintypes.error\<close> with its
  Windows error code; all the others are subclasses of \<open>Exception\<close>.
\<close>

datatype pyexn =
    WinError nat
  | UnicodeEncodeError
  | UnicodeDecodeError
  | AttributeError
  | ValueError
  | TypeError
  | OverflowError

section \<open>Formatting numbers\<close>

text \<open>Decimal digits of a natural number, as \<open>str\<close> prints them.\<close>

fun digits :: "nat \<Rightarrow> pystr" where
  "digits n = (if n < 10 then [48 + n] else digits (n div 10) @ [48 + n mod 10])"

declare digits.simps [simp del]

text \<open>
  \<open>fixed p n\<close> prints the natural number \<open>n\<close>, read as a count of units of
  \<open>10 ^ -p\<close>, with exactly \<open>p\<close> decimals: the digits are padded with zeros to
  \<open>p + 1\<close> places and the point is put before the last \<open>p\<close>. Without decimals there
  is no point.
\<close>

definition fixed :: "nat \<Rightarrow> nat \<Rightarrow> pystr" where
  "fixed p n =
     (let ds = digits n;
          ds' = replicate (Suc p - length ds) 48 @ ds;
          k = length ds' - p
      in if p = 0 then ds' else take k ds' @ [46] @ drop k ds')"

text \<open>
  \<open>round_half_even a d\<close> is \<open>a / d\<close> rounded to the nearest integer, ties to the even
  one: the rounding of the exact value that the float formatter of CPython applies.
\<close>

definition round_half_even :: "nat \<Rightarrow> nat \<Rightarrow> nat" where
  "round_half_even a d =
     (let q = a div d; r = a mod d
      in if 2 * r > d \<or> (2 * r = d \<and> odd q) then q + 1 else q)"

text \<open>
  \<open>format(x, '.pf')\<close> of a double: the sign of the double, then its magnitude rounded
  to \<open>p\<close> decimals; \<open>inf\<close> and \<open>nan\<close> are printed by name.
\<close>

fun format_f :: "nat \<Rightarrow> pyfloat \<Rightarrow> pystr" where
  "format_f p (Fin s m e) =
     (if s then [45] else []) @
     fixed p (if 0 \<le> e then m * 2 ^ nat e * 10 ^ p
              else round_half_even (m * 10 ^ p) (2 ^ nat (- e)))"
| "format_f p (Inf s) = (if s then [45] else []) @ lit ''inf''"
| "format_f p NaN = lit ''nan''"

text \<open>
  The number of bits of a natural number, and the conversion of an integer to a double
  that \<open>int.__format__\<close> performs before it formats with \<open>f\<close>: exact below \<open>2 ^ 53\<close>,
  rounded to 53 significant bits (ties to even) above, and \<open>OverflowError\<close> when the
  binary exponent of the rounded value (its bit length, one more when the rounding carries)
  exceeds that of the largest double.
\<close>

fun bit_length :: "nat \<Rightarrow> nat" where
  "bit_length n = (if n = 0 then 0 else Suc (bit_length (n div 2)))"

declare bit_length.simps [simp del]

definition int_to_float :: "int \<Rightarrow> pyexn + pyfloat" where
  "int_to_float n =
     (let a = nat \<bar>n\<bar>;
          k = bit_length a - 53;
          q = round_half_even a (2 ^ k);
          e = bit_length a + (if q = 2 ^ 53 then 1 else 0)
      in if 1024 < e then Inl OverflowError else Inr (Fin (n < 0) q (int k)))"

text \<open>
  \<open>format(v, '.pf')\<close> for the value of a payload field. Booleans are integers; a string
  raises \<open>ValueError\<close> (unknown format code), and \<open>None\<close>, lists and dictionaries raise
  \<open>TypeError\<close> (unsupported format string).
\<close>

fun py_format_f :: "nat \<Rightarrow> pyval \<Rightarrow> pyexn + pystr" where
  "py_format_f p (PFloat x) = Inr (format_f p x)"
| "py_format_f p (PInt n) =
     (case int_to_float n of Inl e \<Rightarrow> Inl e | Inr x \<Rightarrow> Inr (format_f p x))"
| "py_format_f p (PBool b) =
     (case int_to_float (if b then 1 else 0) of Inl e \<Rightarrow> Inl e | Inr x \<Rightarrow> Inr (format_f p x))"
| "py_format_f p (PStr s) = Inl ValueError"
| "py_format_f p PNone = Inl TypeError"
| "py_format_f p (PList xs) = Inl TypeError"
| "py_format_f p (PDict kvs) = Inl TypeError"

section \<open>Strings\<close>

text \<open>
  \<open>str(v)\<close>, which is what an f-string field without a format specification prints. A
  string prints as itself. The \<open>repr\<close> of doubles, lists and dictionaries is left to the
  interpreter: it is the parameter \<open>rp\<close>.
\<close>

fun py_str :: "(pyval \<Rightarrow> pystr) \<Rightarrow> pyval \<Rightarrow> pystr" where
  "py_str rp (PStr s) = s"
| "py_str rp PNone = lit ''None''"
| "py_str rp (PBool b) = (if b then lit ''True'' else lit ''False'')"
| "py_str rp (PInt n) = (if n < 0 then [45] else []) @ digits (nat \<bar>n\<bar>)"
| "py_str rp v = rp v"

text \<open>\<open>str.isspace\<close> for one code point: the whitespace characters of Unicode.\<close>

definition py_isspace :: "nat \<Rightarrow> bool" where
  "py_isspace c =
     ((9 \<le> c \<and> c \<le> 13) \<or> (28 \<le> c \<and> c \<le> 32) \<or> c = 0x85 \<or> c = 0xA0 \<or> c = 0x1680
      \<or> (0x2000 \<le> c \<and> c \<le> 0x200A) \<or> c = 0x2028 \<or> c = 0x2029 \<or> c = 0x202F
      \<or> c = 0x205F \<or> c = 0x3000)"

text \<open>\<open>s.strip()\<close> removes whitespace at both ends of the string.\<close>

definition py_strip :: "pystr \<Rightarrow> pystr" where
  "py_strip s = rev (dropWhile py_isspace (rev (dropWhile py_isspace s)))"

text \<open>\<open>needle in hay\<close> for strings: \<open>needle\<close> occurs in \<open>hay\<close> as a substring.\<close>

fun py_in :: "pystr \<Rightarrow> pystr \<Rightarrow> bool" where
  "py_in needle [] = (needle = [])"
| "py_in needle (c # cs) = (take (length needle) (c # cs) = needle \<or> py_in needle cs)"

section \<open>UTF-8\<close>

text \<open>
  \<open>s.encode('utf-8')\<close>: one to four bytes for each code point (a Python string holds code
  points up to \<open>0x10FFFF\<close>); a surrogate, which \<open>json.loads\<close> can produce from an
  escape, raises \<open>UnicodeEncodeError\<close>.
\<close>

definition utf8_encode_cp :: "nat \<Rightarrow> pyexn + pybytes" where
  "utf8_encode_cp c =
     (if c < 0x80 then Inr [c]
      else if c < 0x800 then Inr [0xC0 + c div 64, 0x80 + c mod 64]
      else if 0xD800 \<le> c \<and> c \<le> 0xDFFF then Inl UnicodeEncodeError
      else if c < 0x10000 then
        Inr [0xE0 + c div 4096, 0x80 + c div 64 mod 64, 0x80 + c mod 64]
      else
        Inr [0xF0 + c div 262144, 0x80 + c div 4096 mod 64, 0x80 + c div 64 mod 64,
             0x80 + c mod 64])"

fun utf8_encode :: "pystr \<Rightarrow> pyexn + pybytes" where
  "utf8_encode [] = Inr []"
| "utf8_encode (c # cs) =
     (case utf8_encode_cp c of
        Inl e \<Rightarrow> Inl e
      | Inr bs \<Rightarrow> (case utf8_encode cs of Inl e \<Rightarrow> Inl e | Inr rest \<Rightarrow> Inr (bs @ rest)))"

text \<open>
  \<open>b.decode('utf-8')\<close> with the default strict error handling: an invalid start byte, a
  missing or invalid continuation byte, an overlong form, a surrogate or a code point
  beyond \<open>0x10FFFF\<close> raises \<open>UnicodeDecodeError\<close>.
\<close>

definition is_cont :: "nat \<Rightarrow> bool" where
  "is_cont b = (0x80 \<le> b \<and> b < 0xC0)"

definition cons_cp :: "nat \<Rightarrow> pyexn + pystr \<Rightarrow> pyexn + pystr" where
  "cons_cp c r = (case r of Inl e \<Rightarrow> Inl e | Inr cs \<Rightarrow> Inr (c # cs))"

fun utf8_decode :: "pybytes \<Rightarrow> pyexn + pystr" where
  "utf8_decode [] = Inr []"
| "utf8_decode (b0 # bs) =
     (if b0 < 0x80 then cons_cp b0 (utf8_decode bs)
      else if 0xC2 \<le> b0 \<and> b0 < 0xE0 then
        (case bs of
           b1 # r \<Rightarrow>
             if is_cont b1
             then cons_cp ((b0 - 0xC0) * 64 + (b1 - 0x80)) (utf8_decode r)
             else Inl UnicodeDecodeError
         | _ \<Rightarrow> Inl UnicodeDecodeError)
      else if 0xE0 \<le> b0 \<and> b0 < 0xF0 then
        (case bs of
           b1 # b2 # r \<Rightarrow>
             if is_cont b1 \<and> is_cont b2 \<and> \<not> (b0 = 0xE0 \<and> b1 < 0xA0)
                \<and> \<not> (b0 = 0xED \<and> 0xA0 \<le> b1)
             then cons_cp ((b0 - 0xE0) * 4096 + (b1 - 0x80) * 64 + (b2 - 0x80))
                    (utf8_decode r)
             else Inl UnicodeDecodeError
         | _ \<Rightarrow> Inl UnicodeDecodeError)
      else if 0xF0 \<le> b0 \<and> b0 < 0xF5 then
        (case bs of
           b1 # b2 # b3 # r \<Rightarrow>
             if is_cont b1 \<and> is_cont b2 \<and> is_cont b3 \<and> \<not> (b0 = 0xF0 \<and> b1 < 0x90)
                \<and> \<not> (b0 = 0xF4 \<and> 0x90 \<le> b1)
             then cons_cp ((b0 - 0xF0) * 262144 + (b1 - 0x80) * 4096 + (b2 - 0x80) * 64
                           + (b3 - 0x80))
                    (utf8_decode r)
             else Inl UnicodeDecodeError
         | _ \<Rightarrow> Inl UnicodeDecodeError)
      else Inl UnicodeDecodeError)"

section \<open>The named pipe and the interpreter\<close>

text \<open>
  What a call can do: return a value, raise, or block and never come back (a synchronous
  \<open>ReadFile\<close> or \<open>WriteFile\<close> on a pipe whose other end stays silent).
\<close>

datatype 'a outcome = Returned 'a | Raised pyexn | Blocked

text \<open>What the operating system answers to one call on the pipe.\<close>

datatype 'a io = Done 'a | Failed nat | Blocks

text \<open>
  Everything the bridge does not decide itself: whether \<open>CreateFile\<close> finds the pipe
  (\<open>None\<close>) or fails with a Windows error code, what \<open>WriteFile\<close> does with a request,
  which bytes the peer has made available when the bridge reads after that request, how
  the interpreter prints an exception (\<open>str(e)\<close>) and the \<open>repr\<close> of a value.
\<close>

record world =
  connect_result :: "nat option"
  write_result :: "pybytes \<Rightarrow> unit io"
  read_result :: "pybytes \<Rightarrow> pybytes io"
  exn_str :: "pyexn \<Rightarrow> pystr"
  repr :: "pyval \<Rightarrow> pystr"

text \<open>
  The state the bridge changes: the \<open>win32file\<close> calls issued so far, oldest first, the
  number of handles opened and not closed, and the bytes written to the open handle.
\<close>

datatype call = CreateFile | WriteFile pybytes | ReadFile nat | CloseHandle

record pipe_state =
  calls :: "call list"
  open_handles :: nat
  request :: pybytes

type_synonym 'a action = "pipe_state \<Rightarrow> pipe_state \<times> 'a outcome"

text \<open>
  Statements in sequence: the second runs on the state the first one left, and only when
  the first one returned.
\<close>

definition ret :: "'a \<Rightarrow> 'a action" where
  "ret x st = (st, Returned x)"

definition lift :: "pyexn + 'a \<Rightarrow> 'a action" where
  "lift r st = (case r of Inl e \<Rightarrow> (st, Raised e) | Inr x \<Rightarrow> (st, Returned x))"

definition seq :: "'a action \<Rightarrow> ('a \<Rightarrow> 'b action) \<Rightarrow> 'b action" where
  "seq m f st =
     (case m st of
        (st', Returned x) \<Rightarrow> f x st'
      | (st', Raised e) \<Rightarrow> (st', Raised e)
      | (st', Blocked) \<Rightarrow> (st', Blocked))"

definition logged :: "call \<Rightarrow> pipe_state \<Rightarrow> pipe_state" where
  "logged c st = st\<lparr>calls := calls st @ [c]\<rparr>"

definition win32_CreateFile :: "world \<Rightarrow> unit action" where
  "win32_CreateFile w st =
     (case connect_result w of
        Some err \<Rightarrow> (logged CreateFile st, Raised (WinError err))
      | None \<Rightarrow>
          ((logged CreateFile st)\<lparr>open_handles := Suc (open_handles st), request := []\<rparr>,
           Returned ()))"

definition win32_WriteFile :: "world \<Rightarrow> pybytes \<Rightarrow> unit action" where
  "win32_WriteFile w bs st =
     (case write_result w bs of
        Done u \<Rightarrow> ((logged (WriteFile bs) st)\<lparr>request := request st @ bs\<rparr>, Returned ())
      | Failed err \<Rightarrow> (logged (WriteFile bs) st, Raised (WinError err))
      | Blocks \<Rightarrow> (logged (WriteFile bs) st, Blocked))"

text \<open>\<open>ReadFile(handle, n)\<close> returns at most \<open>n\<close> of the bytes that are available.\<close>

definition win32_ReadFile :: "world \<Rightarrow> nat \<Rightarrow> pybytes action" where
  "win32_ReadFile w n st =
     (case read_result w (request st) of
        Done avail \<Rightarrow> (logged (ReadFile n) st, Returned (take n avail))
      | Failed err \<Rightarrow> (logged (ReadFile n) st, Raised (WinError err))
      | Blocks \<Rightarrow> (logged (ReadFile n) st, Blocked))"

definition win32_CloseHandle :: "unit action" where
  "win32_CloseHandle st =
     ((logged CloseHandle st)\<lparr>open_handles := open_handles st - 1\<rparr>, Returned ())"

section \<open>\<open>send_to_msagent\<close>\<close>

definition PIPE_TIMEOUT :: nat where
  "PIPE_TIMEOUT = 5000"

text \<open>
  The body of the \<open>try\<close> statement: open the pipe, write the command and a newline,
  read up to 1024 bytes, decode and strip them, close the handle. \<open>PIPE_TIMEOUT\<close> occurs
  nowhere in it.
\<close>

definition round_trip :: "world \<Rightarrow> pystr \<Rightarrow> pystr action" where
  "round_trip w command =
     seq (win32_CreateFile w) (\<lambda>handle.
     seq (lift (utf8_encode (command @ [10]))) (\<lambda>command_bytes.
     seq (win32_WriteFile w command_bytes) (\<lambda>_.
     seq (win32_ReadFile w 1024) (\<lambda>data.
     seq (lift (utf8_decode data)) (\<lambda>text.
     seq win32_CloseHandle (\<lambda>_.
     ret (py_strip text)))))))"

text \<open>
  The two \<open>except\<close> clauses, in the order of the source: \<open>pywintypes.error\<close> first,
  then every other \<open>Exception\<close>.
\<close>

definition could_not_connect :: pystr where
  "could_not_connect = lit ''ERROR:Could not connect to MSAgent-AI. Is it running?''"

fun except_clauses :: "world \<Rightarrow> pystr outcome \<Rightarrow> pystr outcome" where
  "except_clauses w (Raised (WinError err)) = Returned could_not_connect"
| "except_clauses w (Raised e) = Returned (lit ''ERROR:'' @ exn_str w e)"
| "except_clauses w r = r"

definition send_to_msagent :: "world \<Rightarrow> pystr \<Rightarrow> pystr action" where
  "send_to_msagent w command st =
     (case round_trip w command st of (st', r) \<Rightarrow> (st', except_clauses w r))"

section \<open>The HTTP handlers\<close>

record response =
  status_code :: nat
  body :: "(pystr \<times> pyval) list"

definition jsonify :: "(pystr \<times> pyval) list \<Rightarrow> response" where
  "jsonify d = \<lparr>status_code = 200, body = d\<rparr>"

text \<open>
  \<open>data.get(key, default)\<close> on the decoded body: a dictionary answers with the value of
  the key or with the default; any other JSON value has no \<open>get\<close>.
\<close>

fun py_get :: "pyval \<Rightarrow> pystr \<Rightarrow> pyval \<Rightarrow> pyexn + pyval" where
  "py_get (PDict kvs) key dflt =
     Inr (case map_of kvs key of None \<Rightarrow> dflt | Some v \<Rightarrow> v)"
| "py_get v key dflt = Inl AttributeError"

definition andthen :: "pyexn + 'a \<Rightarrow> ('a \<Rightarrow> pyexn + 'b) \<Rightarrow> pyexn + 'b" where
  "andthen r f = (case r of Inl e \<Rightarrow> Inl e | Inr x \<Rightarrow> f x)"

definition health :: "world \<Rightarrow> response action" where
  "health w =
     seq (send_to_msagent w (lit ''PING'')) (\<lambda>response.
     let is_connected = py_in (lit ''PONG'') response in
     ret (jsonify [(lit ''status'', PStr (lit ''ok'')),
                   (lit ''msagent_connected'', PBool is_connected),
                   (lit ''msagent_response'', PStr response)]))"

text \<open>
  Each event handler starts from the decoded body \<open>request.json\<close>, reads its fields,
  builds the prompt with an f-string (the fields are formatted from left to right), sends \<open>CHAT:\<close> and the prompt, drops what
  \<open>send_to_msagent\<close> returned and answers \<open>{'status': 'ok'}\<close>. The part before the
  send is the function \<open>..._prompt\<close>.
\<close>

definition vehicle_prompt :: "world \<Rightarrow> pyval \<Rightarrow> pyexn + pystr" where
  "vehicle_prompt w data =
     andthen (py_get data (lit ''vehicle_name'') (PStr (lit ''Unknown''))) (\<lambda>vehicle_name.
     andthen (py_get data (lit ''vehicle_model'') (PStr [])) (\<lambda>vehicle_model.
     Inr (lit ''I just spawned a '' @ py_str (repr w) vehicle_name @ lit '' ''
          @ py_str (repr w) vehicle_model
          @ lit '' in BeamNG! Make an excited comment about this vehicle.'')))"

definition crash_prompt :: "world \<Rightarrow> pyval \<Rightarrow> pyexn + pystr" where
  "crash_prompt w data =
     andthen (py_get data (lit ''vehicle_name'') (PStr (lit ''Unknown''))) (\<lambda>vehicle_name.
     andthen (py_get data (lit ''speed_before'') (PInt 0)) (\<lambda>speed_before.
     andthen (py_get data (lit ''damage_level'') (PInt 0)) (\<lambda>damage_level.
     andthen (py_format_f 0 speed_before) (\<lambda>speed_text.
     andthen (py_format_f 1 damage_level) (\<lambda>damage_text.
     Inr (lit ''I just crashed my '' @ py_str (repr w) vehicle_name @ lit '' at ''
          @ speed_text @ lit '' km/h! The damage is pretty bad ('' @ damage_text
          @ lit ''). React dramatically!''))))))"

definition dent_prompt :: "world \<Rightarrow> pyval \<Rightarrow> pyexn + pystr" where
  "dent_prompt w data =
     andthen (py_get data (lit ''vehicle_name'') (PStr (lit ''Unknown''))) (\<lambda>vehicle_name.
     andthen (py_get data (lit ''damage_amount'') (PInt 0)) (\<lambda>damage_amount.
     Inr (lit ''My '' @ py_str (repr w) vehicle_name
          @ lit '' just got a big dent! Make a comment about the damage.'')))"

definition scratch_prompt :: "world \<Rightarrow> pyval \<Rightarrow> pyexn + pystr" where
  "scratch_prompt w data =
     andthen (py_get data (lit ''vehicle_name'') (PStr (lit ''Unknown''))) (\<lambda>vehicle_name.
     Inr (lit ''Just scratched the paint on my '' @ py_str (repr w) vehicle_name
          @ lit ''. Make a light comment.''))"

definition surroundings_prompt :: "world \<Rightarrow> pyval \<Rightarrow> pyexn + pystr" where
  "surroundings_prompt w data =
     andthen (py_get data (lit ''vehicle_name'') (PStr (lit ''Unknown''))) (\<lambda>vehicle_name.
     andthen (py_get data (lit ''location'') (PStr (lit ''Unknown''))) (\<lambda>location.
     andthen (py_get data (lit ''speed'') (PInt 0)) (\<lambda>speed.
     andthen (py_format_f 0 speed) (\<lambda>speed_text.
     Inr (lit ''I'm driving my '' @ py_str (repr w) vehicle_name @ lit '' at '' @ speed_text
          @ lit '' km/h in '' @ py_str (repr w) location
          @ lit ''. Comment on the scene!'')))))"

definition status_ok :: response where
  "status_ok = jsonify [(lit ''status'', PStr (lit ''ok''))]"

definition send_chat :: "world \<Rightarrow> pyexn + pystr \<Rightarrow> response action" where
  "send_chat w prompt =
     seq (lift prompt) (\<lambda>prompt.
     seq (send_to_msagent w (lit ''CHAT:'' @ prompt)) (\<lambda>_.
     ret status_ok))"

definition comment_on_vehicle :: "world \<Rightarrow> pyval \<Rightarrow> response action" where
  "comment_on_vehicle w data = send_chat w (vehicle_prompt w data)"

definition comment_on_crash :: "world \<Rightarrow> pyval \<Rightarrow> response action" where
  "comment_on_crash w data = send_chat w (crash_prompt w data)"

definition comment_on_dent :: "world \<Rightarrow> pyval \<Rightarrow> response action" where
  "comment_on_dent w data = send_chat w (dent_prompt w data)"

definition comment_on_scratch :: "world \<Rightarrow> pyval \<Rightarrow> response action" where
  "comment_on_scratch w data = send_chat w (scratch_prompt w data)"

definition comment_on_surroundings :: "world \<Rightarrow> pyval \<Rightarrow> response action" where
  "comment_on_surroundings w data = send_chat w (surroundings_prompt w data)"

section \<open>Auxiliary notions for the statements\<close>

text \<open>The state after a successful \<open>CreateFile\<close>, and after the request was written.\<close>

definition opened :: "pipe_state \<Rightarrow> pipe_state" where
  "opened st = (logged CreateFile st)\<lparr>open_handles := Suc (open_handles st), request := []\<rparr>"

definition written :: "pybytes \<Rightarrow> pipe_state \<Rightarrow> pipe_state" where
  "written bs st = (logged (WriteFile bs) (opened st))\<lparr>request := bs\<rparr>"

text \<open>
  The values that \<open>format(v, '.pf')\<close> accepts: doubles, booleans and the integers that
  convert to a double (those of magnitude below \<open>2 ^ 1024 - 2 ^ 970\<close>, as
  \<open>is_number_int_iff\<close> shows). A field that is absent gets the default \<open>0\<close>, which
  is one.
\<close>

fun is_number :: "pyval \<Rightarrow> bool" where
  "is_number (PFloat x) = True"
| "is_number (PBool b) = True"
| "is_number (PInt n) = (case int_to_float n of Inl e \<Rightarrow> False | Inr x \<Rightarrow> True)"
| "is_number v = False"

definition number_if_present :: "(pystr \<times> pyval) list \<Rightarrow> pystr \<Rightarrow> bool" where
  "number_if_present kvs key = (case map_of kvs key of None \<Rightarrow> True | Some v \<Rightarrow> is_number v)"

text \<open>What \<open>data.get(key, dflt)\<close> answers for a dictionary.\<close>

definition field_or :: "(pystr \<times> pyval) list \<Rightarrow> pystr \<Rightarrow> pyval \<Rightarrow> pyval" where
  "field_or kvs key dflt = (case map_of kvs key of None \<Rightarrow> dflt | Some v \<Rightarrow> v)"

text \<open>
  Concrete surroundings for the examples: a fresh state, a peer that accepts every request
  and has a fixed reply ready, no peer at all (\<open>CreateFile\<close> fails with
  \<open>ERROR_FILE_NOT_FOUND\<close>), and a peer that takes the request and never answers.
\<close>

definition idle :: pipe_state where
  "idle = \<lparr>calls = [], open_handles = 0, request = []\<rparr>"

definition mock_peer :: "pybytes \<Rightarrow> world" where
  "mock_peer reply =
     \<lparr>connect_result = None, write_result = (\<lambda>bs. Done ()), read_result = (\<lambda>bs. Done reply),
      exn_str = (\<lambda>e. lit ''codec error''), repr = (\<lambda>v. lit ''?'')\<rparr>"

definition absent_peer :: world where
  "absent_peer = (mock_peer [])\<lparr>connect_result := Some 2\<rparr>"

definition silent_peer :: world where
  "silent_peer = (mock_peer [])\<lparr>read_result := (\<lambda>bs. Blocks)\<rparr>"

section \<open>Sequencing and the round trip, case by case\<close>

lemma seq_Returned: "m st = (st', Returned x) \<Longrightarrow> seq m f st = f x st'"
  by (simp add: seq_def)

lemma seq_Raised: "m st = (st', Raised e) \<Longrightarrow> seq m f st = (st', Raised e)"
  by (simp add: seq_def)

lemma seq_Blocked: "m st = (st', Blocked) \<Longrightarrow> seq m f st = (st', Blocked)"
  by (simp add: seq_def)

lemma lift_Inr: "lift (Inr x) st = (st, Returned x)"
  by (simp add: lift_def)

lemma lift_Inl: "lift (Inl e) st = (st, Raised e)"
  by (simp add: lift_def)

lemma round_trip_connect_failed:
  "connect_result w = Some err \<Longrightarrow>
   round_trip w command st = (logged CreateFile st, Raised (WinError err))"
  by (simp add: round_trip_def seq_def win32_CreateFile_def)

lemma round_trip_encode_failed:
  "connect_result w = None \<Longrightarrow> utf8_encode (command @ [10]) = Inl e \<Longrightarrow>
   round_trip w command st = (opened st, Raised e)"
  by (simp add: round_trip_def seq_def win32_CreateFile_def lift_def opened_def)

lemma round_trip_write_failed:
  "connect_result w = None \<Longrightarrow> utf8_encode (command @ [10]) = Inr bs \<Longrightarrow>
   write_result w bs = Failed err \<Longrightarrow>
   round_trip w command st = (logged (WriteFile bs) (opened st), Raised (WinError err))"
  by (simp add: round_trip_def seq_def win32_CreateFile_def lift_def opened_def
      win32_WriteFile_def)

lemma round_trip_write_blocks:
  "connect_result w = None \<Longrightarrow> utf8_encode (command @ [10]) = Inr bs \<Longrightarrow>
   write_result w bs = Blocks \<Longrightarrow>
   round_trip w command st = (logged (WriteFile bs) (opened st), Blocked)"
  by (simp add: round_trip_def seq_def win32_CreateFile_def lift_def opened_def
      win32_WriteFile_def)

lemma round_trip_read_failed:
  "connect_result w = None \<Longrightarrow> utf8_encode (command @ [10]) = Inr bs \<Longrightarrow>
   write_result w bs = Done u \<Longrightarrow> read_result w bs = Failed err \<Longrightarrow>
   round_trip w command st = (logged (ReadFile 1024) (written bs st), Raised (WinError err))"
  by (simp add: round_trip_def seq_def win32_CreateFile_def lift_def opened_def written_def
      win32_WriteFile_def win32_ReadFile_def logged_def)

lemma round_trip_read_blocks:
  "connect_result w = None \<Longrightarrow> utf8_encode (command @ [10]) = Inr bs \<Longrightarrow>
   write_result w bs = Done u \<Longrightarrow> read_result w bs = Blocks \<Longrightarrow>
   round_trip w command st = (logged (ReadFile 1024) (written bs st), Blocked)"
  by (simp add: round_trip_def seq_def win32_CreateFile_def lift_def opened_def written_def
      win32_WriteFile_def win32_ReadFile_def logged_def)

lemma round_trip_decode_failed:
  "connect_result w = None \<Longrightarrow> utf8_encode (command @ [10]) = Inr bs \<Longrightarrow>
   write_result w bs = Done u \<Longrightarrow> read_result w bs = Done avail \<Longrightarrow>
   utf8_decode (take 1024 avail) = Inl e \<Longrightarrow>
   round_trip w command st = (logged (ReadFile 1024) (written bs st), Raised e)"
  by (simp add: round_trip_def seq_def win32_CreateFile_def lift_def opened_def written_def
      win32_WriteFile_def win32_ReadFile_def logged_def)

lemma round_trip_success:
  "connect_result w = None \<Longrightarrow> utf8_encode (command @ [10]) = Inr bs \<Longrightarrow>
   write_result w bs = Done u \<Longrightarrow> read_result w bs = Done avail \<Longrightarrow>
   utf8_decode (take 1024 avail) = Inr text \<Longrightarrow>
   round_trip w command st =
     ((logged CloseHandle (logged (ReadFile 1024) (written bs st)))\<lparr>open_handles := open_handles st\<rparr>,
      Returned (py_strip text))"
  by (simp add: round_trip_def seq_def win32_CreateFile_def lift_def opened_def written_def
      win32_WriteFile_def win32_ReadFile_def win32_CloseHandle_def logged_def ret_def)

section \<open>Facts about UTF-8, substrings and stripping\<close>

lemma cons_cp_error: "cons_cp c r = Inl e \<Longrightarrow> r = Inl e"
  by (cases r) (simp_all add: cons_cp_def)

lemma utf8_decode_error: "utf8_decode bs = Inl e \<Longrightarrow> e = UnicodeDecodeError"
proof (induction bs arbitrary: e rule: length_induct)
  case (1 bs)
  show ?case
  proof (cases bs)
    case Nil
    with 1 show ?thesis by simp
  next
    case (Cons b0 r0)
    have ih: "\<And>r x. utf8_decode r = Inl x \<Longrightarrow> length r \<le> length r0 \<Longrightarrow> x = UnicodeDecodeError"
      using 1(1) Cons by (metis le_imp_less_Suc length_Cons)
    from 1(2) Cons show ?thesis
      by (auto simp: Cons split: if_splits list.splits dest!: cons_cp_error dest: ih)
  qed
qed

lemma utf8_encode_error: "utf8_encode s = Inl e \<Longrightarrow> e = UnicodeEncodeError"
  by (induction s arbitrary: e)
     (auto simp: utf8_encode_cp_def split: if_splits sum.splits)

lemma utf8_encode_append:
  "utf8_encode (s @ t) =
     (case utf8_encode s of
        Inl e \<Rightarrow> Inl e
      | Inr bs \<Rightarrow> (case utf8_encode t of Inl e \<Rightarrow> Inl e | Inr bt \<Rightarrow> Inr (bs @ bt)))"
  by (induction s) (auto split: sum.splits)

lemma utf8_encode_newline:
  "utf8_encode (s @ [10]) = (case utf8_encode s of Inl e \<Rightarrow> Inl e | Inr bs \<Rightarrow> Inr (bs @ [10]))"
  by (simp add: utf8_encode_append utf8_encode_cp_def split: sum.splits)

lemma utf8_encode_ascii: "\<forall>c\<in>set s. c < 128 \<Longrightarrow> utf8_encode s = Inr s"
  by (induction s) (auto simp: utf8_encode_cp_def)

lemma utf8_decode_ascii: "\<forall>b\<in>set bs. b < 128 \<Longrightarrow> utf8_decode bs = Inr bs"
  by (induction bs) (auto simp: cons_cp_def)

text \<open>Decoding undoes encoding: the two functions describe the same code.\<close>

lemma split64: "\<exists>q m. (c::nat) = 64 * q + m \<and> m < 64 \<and> c div 64 = q \<and> c mod 64 = m"
  by (metis mod_less_divisor mult_div_mod_eq zero_less_numeral)

lemma utf8_decode_encode_cp:
  assumes "c \<le> 0x10FFFF" and "utf8_encode_cp c = Inr bs"
  shows "utf8_decode (bs @ rest) = cons_cp c (utf8_decode rest)"
proof -
  obtain q1 m1 where 1: "c = 64 * q1 + m1" "m1 < 64" "c div 64 = q1" "c mod 64 = m1"
    using split64 [of c] by blast
  obtain q2 m2 where 2: "q1 = 64 * q2 + m2" "m2 < 64" "q1 div 64 = q2" "q1 mod 64 = m2"
    using split64 [of q1] by blast
  obtain q3 m3 where 3: "q2 = 64 * q3 + m3" "m3 < 64" "q2 div 64 = q3" "q2 mod 64 = m3"
    using split64 [of q2] by blast
  have d: "c div 4096 = q2" "c div 262144 = q3"
    using 1(3) 2(3) 3(3) by (simp_all add: div_mult2_eq)
  consider "c < 0x80" | "0x80 \<le> c" "c < 0x800" | "0x800 \<le> c" "c < 0xD800"
    | "0xD800 \<le> c" "c \<le> 0xDFFF" | "0xE000 \<le> c" "c < 0x10000" | "0x10000 \<le> c"
    by linarith
  then show ?thesis
  proof cases
    case 1
    with assms show ?thesis by (auto simp: utf8_encode_cp_def)
  next
    case 2
    then have bs: "bs = [0xC0 + q1, 0x80 + m1]"
      using assms(2) 1(3,4) by (auto simp: utf8_encode_cp_def)
    have "0xC2 \<le> 0xC0 + q1" "0xC0 + q1 < 0xE0" "\<not> 0xC0 + q1 < 0x80" "q1 * 64 + m1 = c"
      using 2 1(1,2) by linarith+
    then show ?thesis unfolding bs using 1(2) by (auto simp: is_cont_def)
  next
    case 4
    with assms show ?thesis by (auto simp: utf8_encode_cp_def)
  next
    case 3
    then have bs: "bs = [0xE0 + q2, 0x80 + m2, 0x80 + m1]"
      using assms(2) 1(3,4) 2(4) d by (auto simp: utf8_encode_cp_def)
    have "0xE0 + q2 < 0xF0" "\<not> 0xE0 + q2 < 0x80" "\<not> 0xE0 + q2 < 0xE0"
      "q2 * 4096 + m2 * 64 + m1 = c" "q2 = 0 \<longrightarrow> 32 \<le> m2" "q2 = 13 \<longrightarrow> m2 < 32"
      using 3 1(1,2) 2(1,2) by linarith+
    then show ?thesis unfolding bs using 1(2) 2(2) by (auto simp: is_cont_def)
  next
    case 5
    then have bs: "bs = [0xE0 + q2, 0x80 + m2, 0x80 + m1]"
      using assms(2) 1(3,4) 2(4) d by (auto simp: utf8_encode_cp_def)
    have "0xE0 + q2 < 0xF0" "\<not> 0xE0 + q2 < 0x80" "\<not> 0xE0 + q2 < 0xE0"
      "q2 * 4096 + m2 * 64 + m1 = c" "q2 \<noteq> 0" "q2 \<noteq> 13"
      using 5 1(1,2) 2(1,2) by linarith+
    then show ?thesis unfolding bs using 1(2) 2(2) by (auto simp: is_cont_def)
  next
    case 6
    then have bs: "bs = [0xF0 + q3, 0x80 + m3, 0x80 + m2, 0x80 + m1]"
      using assms(2) 1(3,4) 2(4) 3(4) d by (auto simp: utf8_encode_cp_def)
    have "0xF0 + q3 < 0xF5" "\<not> 0xF0 + q3 < 0x80" "\<not> 0xF0 + q3 < 0xE0" "\<not> 0xF0 + q3 < 0xF0"
      "q3 * 262144 + m3 * 4096 + m2 * 64 + m1 = c" "q3 = 0 \<longrightarrow> 16 \<le> m3"
      "q3 = 4 \<longrightarrow> m3 < 16"
      using 6 assms(1) 1(1,2) 2(1,2) 3(1,2) by linarith+
    then show ?thesis unfolding bs using 1(2) 2(2) 3(2) by (auto simp: is_cont_def)
  qed
qed

lemma utf8_decode_encode:
  "\<forall>c\<in>set s. c \<le> 0x10FFFF \<Longrightarrow> utf8_encode s = Inr bs \<Longrightarrow> utf8_decode bs = Inr s"
proof (induction s arbitrary: bs)
  case Nil
  then show ?case by simp
next
  case (Cons c cs)
  from Cons.prems(2) obtain b r where b: "utf8_encode_cp c = Inr b"
    and r: "utf8_encode cs = Inr r" and bs: "bs = b @ r"
    by (auto split: sum.splits)
  from Cons.prems(1) have "utf8_decode r = Inr cs"
    using Cons.IH [OF _ r] by simp
  with utf8_decode_encode_cp [OF _ b, of r] Cons.prems(1) show ?case
    unfolding bs by (simp add: cons_cp_def)
qed

lemma take_eq_iff_prefix: "take (length n) h = n \<longleftrightarrow> (\<exists>b. h = n @ b)"
proof
  assume "take (length n) h = n"
  then have "h = n @ drop (length n) h" by (metis append_take_drop_id)
  then show "\<exists>b. h = n @ b" ..
next
  assume "\<exists>b. h = n @ b"
  then show "take (length n) h = n" by auto
qed

lemma py_in_iff: "py_in needle hay \<longleftrightarrow> (\<exists>a b. hay = a @ needle @ b)"
proof (induction hay)
  case Nil
  then show ?case by auto
next
  case (Cons c cs)
  have "(\<exists>a b. c # cs = a @ needle @ b) \<longleftrightarrow>
      (\<exists>b. c # cs = needle @ b) \<or> (\<exists>a b. cs = a @ needle @ b)"
  proof
    assume "\<exists>a b. c # cs = a @ needle @ b"
    then obtain a b where ab: "c # cs = a @ needle @ b" by blast
    show "(\<exists>b. c # cs = needle @ b) \<or> (\<exists>a b. cs = a @ needle @ b)"
    proof (cases a)
      case Nil
      with ab show ?thesis by auto
    next
      case (Cons x a')
      with ab have "cs = a' @ needle @ b" by simp
      then show ?thesis by blast
    qed
  next
    assume "(\<exists>b. c # cs = needle @ b) \<or> (\<exists>a b. cs = a @ needle @ b)"
    then show "\<exists>a b. c # cs = a @ needle @ b"
    proof
      assume "\<exists>b. c # cs = needle @ b"
      then obtain b where "c # cs = [] @ needle @ b" by auto
      then show ?thesis by blast
    next
      assume "\<exists>a b. cs = a @ needle @ b"
      then obtain a b where "cs = a @ needle @ b" by blast
      then have "c # cs = (c # a) @ needle @ b" by simp
      then show ?thesis by blast
    qed
  qed
  then show ?case using Cons.IH take_eq_iff_prefix [of needle "c # cs"] by simp
qed

lemma rstrip_decompose: "t = rev (dropWhile P (rev t)) @ rev (takeWhile P (rev t))"
proof -
  have "rev (rev t) = rev (takeWhile P (rev t) @ dropWhile P (rev t))"
    by (simp only: takeWhile_dropWhile_id)
  then show ?thesis by (simp only: rev_rev_ident rev_append)
qed

lemma rev_nonempty: "rev u \<noteq> [] \<Longrightarrow> u \<noteq> []"
  by simp

lemma last_rev_hd: "u \<noteq> [] \<Longrightarrow> last (rev u) = hd u"
  by (cases u) simp_all

lemma rstrip_nonempty: "dropWhile P (rev t) \<noteq> [] \<Longrightarrow> t \<noteq> []"
  by auto

lemma py_strip_decompose:
  "\<exists>pre post. s = pre @ py_strip s @ post
     \<and> (\<forall>c\<in>set pre. py_isspace c) \<and> (\<forall>c\<in>set post. py_isspace c)"
proof -
  let ?t = "dropWhile py_isspace s"
  have 1: "s = takeWhile py_isspace s @ ?t" by simp
  have 2: "?t = py_strip s @ rev (takeWhile py_isspace (rev ?t))"
    unfolding py_strip_def by (rule rstrip_decompose)
  have 3: "\<forall>c\<in>set (takeWhile py_isspace s). py_isspace c"
    by (auto dest: set_takeWhileD)
  have 4: "\<forall>c\<in>set (rev (takeWhile py_isspace (rev ?t))). py_isspace c"
    by (auto dest: set_takeWhileD)
  from 1 2 have "s = takeWhile py_isspace s @ py_strip s @ rev (takeWhile py_isspace (rev ?t))"
    by simp
  with 3 4 show ?thesis by blast
qed

lemma py_strip_ends:
  assumes ne: "py_strip s \<noteq> []"
  shows "\<not> py_isspace (hd (py_strip s)) \<and> \<not> py_isspace (last (py_strip s))"
proof -
  let ?t = "dropWhile py_isspace s"
  let ?u = "dropWhile py_isspace (rev ?t)"
  have su: "py_strip s = rev ?u" by (simp only: py_strip_def)
  from ne have "rev ?u \<noteq> []" unfolding py_strip_def .
  then have une: "?u \<noteq> []" by (rule rev_nonempty)
  then have "\<not> py_isspace (hd ?u)" by (rule hd_dropWhile)
  moreover have "last (rev ?u) = hd ?u" using une by (rule last_rev_hd)
  ultimately have l: "\<not> py_isspace (last (py_strip s))" by (simp only: su simp_thms)
  from une have tne: "?t \<noteq> []" by (rule rstrip_nonempty)
  then have h: "\<not> py_isspace (hd ?t)" by (rule hd_dropWhile)
  have "?t = py_strip s @ rev (takeWhile py_isspace (rev ?t))"
    unfolding py_strip_def by (rule rstrip_decompose)
  then have "hd ?t = hd (py_strip s @ rev (takeWhile py_isspace (rev ?t)))" by (rule arg_cong)
  also have "\<dots> = hd (py_strip s)" using ne by (rule hd_append2)
  finally have "hd ?t = hd (py_strip s)" .
  with h l show ?thesis by (simp only: simp_thms)
qed

section \<open>Claims about \<open>send_to_msagent\<close>\<close>

lemma except_clauses_not_Raised: "except_clauses w r \<noteq> Raised x"
  by (cases "(w, r)" rule: except_clauses.cases) simp_all

lemma except_clauses_error:
  "\<exists>msg. except_clauses w (Raised e) = Returned (lit ''ERROR:'' @ msg)"
  by (cases e) (simp_all add: could_not_connect_def lit_def)

lemma calls_round_trip:
  "\<exists>new. calls (fst (round_trip w command st)) = calls st @ CreateFile # new
     \<and> CreateFile \<notin> set new"
  by (simp add: round_trip_def seq_def win32_CreateFile_def lift_def
      win32_WriteFile_def win32_ReadFile_def win32_CloseHandle_def logged_def ret_def
      split: option.splits sum.splits io.splits)

lemma fst_send: "fst (send_to_msagent w command st) = fst (round_trip w command st)"
  by (simp add: send_to_msagent_def split: prod.splits)

lemma snd_send:
  "snd (send_to_msagent w command st) = except_clauses w (snd (round_trip w command st))"
  by (simp add: send_to_msagent_def split: prod.splits)

lemma lit_ascii_PING: "utf8_encode (lit ''PING'' @ [10]) = Inr (lit ''PING'' @ [10])"
  by (rule utf8_encode_ascii) (simp add: lit_def)


text \<open>
  Claim C2. For every command string, \<open>send_to_msagent\<close> never lets an exception reach
  its caller; when the connection fails it returns exactly the string
  \<open>ERROR:Could not connect to MSAgent-AI. Is it running?\<close>; when the body of the
  \<open>try\<close> raises for any other reason it returns a string \<open>ERROR:<message>\<close>, in
  particular \<open>ERROR:\<close> followed by the text of the exception when the reply is not
  UTF-8; and the pipe is opened once per call, so nothing is retried.
\<close>

theorem send_to_msagent_never_raises:
  "snd (send_to_msagent w command st) \<noteq> Raised x
   \<and> (connect_result w = Some err \<longrightarrow>
        snd (send_to_msagent w command st)
          = Returned (lit ''ERROR:Could not connect to MSAgent-AI. Is it running?''))
   \<and> (snd (round_trip w command st) = Raised e \<longrightarrow>
        (\<exists>msg. snd (send_to_msagent w command st) = Returned (lit ''ERROR:'' @ msg)))
   \<and> (connect_result w = None \<and> utf8_encode (command @ [10]) = Inr bs
        \<and> write_result w bs = Done () \<and> read_result w bs = Done avail
        \<and> utf8_decode (take 1024 avail) = Inl e' \<longrightarrow>
        snd (round_trip w command st) = Raised UnicodeDecodeError
        \<and> snd (send_to_msagent w command st)
            = Returned (lit ''ERROR:'' @ exn_str w UnicodeDecodeError))
   \<and> (\<exists>new. calls (fst (send_to_msagent w command st)) = calls st @ CreateFile # new
          \<and> CreateFile \<notin> set new)"
proof (intro conjI impI)
  show "snd (send_to_msagent w command st) \<noteq> Raised x"
    by (simp add: snd_send except_clauses_not_Raised)
next
  assume "connect_result w = Some err"
  then show "snd (send_to_msagent w command st)
          = Returned (lit ''ERROR:Could not connect to MSAgent-AI. Is it running?'')"
    by (simp add: snd_send round_trip_connect_failed could_not_connect_def)
next
  assume "snd (round_trip w command st) = Raised e"
  then show "\<exists>msg. snd (send_to_msagent w command st) = Returned (lit ''ERROR:'' @ msg)"
    using except_clauses_error [of w e] by (simp add: snd_send)
next
  assume a: "connect_result w = None \<and> utf8_encode (command @ [10]) = Inr bs
        \<and> write_result w bs = Done () \<and> read_result w bs = Done avail
        \<and> utf8_decode (take 1024 avail) = Inl e'"
  then have e': "e' = UnicodeDecodeError" by (blast dest: utf8_decode_error)
  with a show "snd (round_trip w command st) = Raised UnicodeDecodeError"
    by (simp add: round_trip_decode_failed)
  with a e' show "snd (send_to_msagent w command st)
            = Returned (lit ''ERROR:'' @ exn_str w UnicodeDecodeError)"
    by (simp add: snd_send)
next
  show "\<exists>new. calls (fst (send_to_msagent w command st)) = calls st @ CreateFile # new
          \<and> CreateFile \<notin> set new"
    using calls_round_trip [of w command st] by (simp add: fst_send)
qed

theorem send_to_msagent_never_raises_witness:
  "snd (send_to_msagent absent_peer (lit ''PING'') idle)
     = Returned (lit ''ERROR:Could not connect to MSAgent-AI. Is it running?'')
   \<and> snd (send_to_msagent (mock_peer [255]) (lit ''PING'') idle)
     = Returned (lit ''ERROR:'' @ lit ''codec error'')
   \<and> snd (round_trip (mock_peer [255]) (lit ''PING'') idle) = Raised UnicodeDecodeError"
proof -
  have 1: "connect_result absent_peer = Some 2"
    by (simp add: absent_peer_def mock_peer_def)
  have 2: "connect_result (mock_peer [255]) = None
        \<and> utf8_encode (lit ''PING'' @ [10]) = Inr (lit ''PING'' @ [10])
        \<and> write_result (mock_peer [255]) (lit ''PING'' @ [10]) = Done ()
        \<and> read_result (mock_peer [255]) (lit ''PING'' @ [10]) = Done [255]
        \<and> utf8_decode (take 1024 [255]) = Inl UnicodeDecodeError"
    by (simp add: mock_peer_def lit_ascii_PING)
  have 3: "exn_str (mock_peer [255]) UnicodeDecodeError = lit ''codec error''"
    by (simp add: mock_peer_def)
  show ?thesis
    using send_to_msagent_never_raises [of absent_peer "lit ''PING''" idle _ 2] 1
      send_to_msagent_never_raises
        [of "mock_peer [255]" "lit ''PING''" idle _ _ _ "lit ''PING'' @ [10]" "[255]"
            UnicodeDecodeError] 2 3
    by simp
qed

lemma except_clauses_Blocked: "except_clauses w Blocked = Blocked"
  by simp

lemma send_to_msagent_eq:
  "round_trip w command st = (st', r) \<Longrightarrow>
   send_to_msagent w command st = (st', except_clauses w r)"
  by (simp add: send_to_msagent_def)


text \<open>
  Claim C7. The claim is that a wait of five seconds bounds the connect phase, so that
  \<open>send_to_msagent\<close> returns within the timeout when the peer is absent or hangs. The
  code defines \<open>PIPE_TIMEOUT\<close> and never uses it: when the pipe exists, the request is
  written and the peer then stays silent, the synchronous \<open>ReadFile\<close> is the last call
  and \<open>send_to_msagent\<close> does not return at all.
\<close>

theorem send_blocks_when_peer_is_silent:
  assumes "connect_result w = None"
    and "utf8_encode (command @ [10]) = Inr bs"
    and "write_result w bs = Done ()"
    and "read_result w bs = Blocks"
  shows "snd (send_to_msagent w command st) = Blocked
    \<and> calls (fst (send_to_msagent w command st))
        = calls st @ [CreateFile, WriteFile bs, ReadFile 1024]"
  using assms
  by (simp add: send_to_msagent_eq [OF round_trip_read_blocks] logged_def written_def
      opened_def)

theorem send_blocks_when_peer_is_silent_witness:
  "snd (send_to_msagent silent_peer (lit ''PING'') idle) = Blocked
   \<and> calls (fst (send_to_msagent silent_peer (lit ''PING'') idle))
       = [CreateFile, WriteFile (lit ''PING'' @ [10]), ReadFile 1024]"
proof -
  have h: "connect_result silent_peer = None"
    "utf8_encode (lit ''PING'' @ [10]) = Inr (lit ''PING'' @ [10])"
    "write_result silent_peer (lit ''PING'' @ [10]) = Done ()"
    "read_result silent_peer (lit ''PING'' @ [10]) = Blocks"
    by (simp_all add: silent_peer_def mock_peer_def lit_ascii_PING)
  show ?thesis
    using send_blocks_when_peer_is_silent [OF h, of idle] by (simp add: idle_def)
qed

text \<open>
  Claim C8. The claim is that the handle is closed before \<open>send_to_msagent\<close> returns,
  on the success path and on every failure path. \<open>CloseHandle\<close> is called on the
  success path only: after a failed write, a failed read or a reply that is not UTF-8
  the function returns its error string with the handle still open and \<open>CloseHandle\<close>
  never called.
\<close>

theorem handle_left_open_on_failure:
  assumes "connect_result w = None"
    and "utf8_encode (command @ [10]) = Inr bs"
  shows "(write_result w bs = Failed err \<longrightarrow>
            open_handles (fst (send_to_msagent w command st)) = Suc (open_handles st)
          \<and> calls (fst (send_to_msagent w command st)) = calls st @ [CreateFile, WriteFile bs]
          \<and> snd (send_to_msagent w command st) = Returned could_not_connect)
       \<and> (write_result w bs = Done () \<and> read_result w bs = Failed err \<longrightarrow>
            open_handles (fst (send_to_msagent w command st)) = Suc (open_handles st)
          \<and> calls (fst (send_to_msagent w command st))
              = calls st @ [CreateFile, WriteFile bs, ReadFile 1024]
          \<and> snd (send_to_msagent w command st) = Returned could_not_connect)
       \<and> (write_result w bs = Done () \<and> read_result w bs = Done avail
            \<and> utf8_decode (take 1024 avail) = Inl UnicodeDecodeError \<longrightarrow>
            open_handles (fst (send_to_msagent w command st)) = Suc (open_handles st)
          \<and> calls (fst (send_to_msagent w command st))
              = calls st @ [CreateFile, WriteFile bs, ReadFile 1024]
          \<and> snd (send_to_msagent w command st)
              = Returned (lit ''ERROR:'' @ exn_str w UnicodeDecodeError))
       \<and> (write_result w bs = Done () \<and> read_result w bs = Done avail
            \<and> utf8_decode (take 1024 avail) = Inr text \<longrightarrow>
            open_handles (fst (send_to_msagent w command st)) = open_handles st
          \<and> calls (fst (send_to_msagent w command st))
              = calls st @ [CreateFile, WriteFile bs, ReadFile 1024, CloseHandle])"
proof (intro conjI impI)
  assume "write_result w bs = Failed err"
  then have *: "send_to_msagent w command st
      = (logged (WriteFile bs) (opened st), Returned could_not_connect)"
    using send_to_msagent_eq [OF round_trip_write_failed [OF assms]] by simp
  show "open_handles (fst (send_to_msagent w command st)) = Suc (open_handles st)"
    "calls (fst (send_to_msagent w command st)) = calls st @ [CreateFile, WriteFile bs]"
    "snd (send_to_msagent w command st) = Returned could_not_connect"
    by (simp_all add: * logged_def opened_def)
next
  assume "write_result w bs = Done () \<and> read_result w bs = Failed err"
  then have *: "send_to_msagent w command st
      = (logged (ReadFile 1024) (written bs st), Returned could_not_connect)"
    using send_to_msagent_eq [OF round_trip_read_failed [OF assms]] by simp
  show "open_handles (fst (send_to_msagent w command st)) = Suc (open_handles st)"
    "calls (fst (send_to_msagent w command st))
       = calls st @ [CreateFile, WriteFile bs, ReadFile 1024]"
    "snd (send_to_msagent w command st) = Returned could_not_connect"
    by (simp_all add: * logged_def opened_def written_def)
next
  assume "write_result w bs = Done () \<and> read_result w bs = Done avail
            \<and> utf8_decode (take 1024 avail) = Inl UnicodeDecodeError"
  then have *: "send_to_msagent w command st
      = (logged (ReadFile 1024) (written bs st),
         Returned (lit ''ERROR:'' @ exn_str w UnicodeDecodeError))"
    using send_to_msagent_eq [OF round_trip_decode_failed [OF assms]] by simp
  show "open_handles (fst (send_to_msagent w command st)) = Suc (open_handles st)"
    "calls (fst (send_to_msagent w command st))
       = calls st @ [CreateFile, WriteFile bs, ReadFile 1024]"
    "snd (send_to_msagent w command st)
       = Returned (lit ''ERROR:'' @ exn_str w UnicodeDecodeError)"
    by (simp_all add: * logged_def opened_def written_def)
next
  assume "write_result w bs = Done () \<and> read_result w bs = Done avail
            \<and> utf8_decode (take 1024 avail) = Inr text"
  then have *: "send_to_msagent w command st
      = ((logged CloseHandle (logged (ReadFile 1024) (written bs st)))
           \<lparr>open_handles := open_handles st\<rparr>, Returned (py_strip text))"
    using send_to_msagent_eq [OF round_trip_success [OF assms]] by simp
  show "open_handles (fst (send_to_msagent w command st)) = open_handles st"
    "calls (fst (send_to_msagent w command st))
       = calls st @ [CreateFile, WriteFile bs, ReadFile 1024, CloseHandle]"
    by (simp_all add: * logged_def opened_def written_def)
qed

theorem handle_left_open_on_failure_witness:
  "open_handles (fst (send_to_msagent (mock_peer [255]) (lit ''PING'') idle)) = 1
   \<and> calls (fst (send_to_msagent (mock_peer [255]) (lit ''PING'') idle))
       = [CreateFile, WriteFile (lit ''PING'' @ [10]), ReadFile 1024]
   \<and> snd (send_to_msagent (mock_peer [255]) (lit ''PING'') idle)
       = Returned (lit ''ERROR:codec error'')"
proof -
  have h: "connect_result (mock_peer [255]) = None"
    "utf8_encode (lit ''PING'' @ [10]) = Inr (lit ''PING'' @ [10])"
    by (simp_all add: mock_peer_def lit_ascii_PING)
  have g: "write_result (mock_peer [255]) (lit ''PING'' @ [10]) = Done ()
      \<and> read_result (mock_peer [255]) (lit ''PING'' @ [10]) = Done [255]
      \<and> utf8_decode (take 1024 [255]) = Inl UnicodeDecodeError"
    by (simp add: mock_peer_def)
  have e: "lit ''ERROR:'' @ exn_str (mock_peer [255]) UnicodeDecodeError
      = lit ''ERROR:codec error''"
    by (simp add: mock_peer_def lit_def)
  show ?thesis
    using handle_left_open_on_failure [OF h, where avail = "[255]" and st = idle] g e
    by (simp add: idle_def)
qed

lemma dropWhile_none: "\<forall>c\<in>set s. \<not> P c \<Longrightarrow> dropWhile P s = s"
  by (cases s) auto

lemma py_strip_no_space: "\<forall>c\<in>set s. \<not> py_isspace c \<Longrightarrow> py_strip s = s"
  by (simp add: py_strip_def dropWhile_none)


text \<open>
  Claim C6. On a successful round trip \<open>send_to_msagent\<close> opens the pipe, writes in one
  \<open>WriteFile\<close> exactly the UTF-8 bytes of the command followed by the newline byte and
  nothing else, reads once with a limit of 1024 bytes and closes the handle; what it
  returns is made from the bytes of that one read, so a longer reply is cut at 1024 bytes.
\<close>

theorem round_trip_framing:
  assumes "connect_result w = None"
    and "utf8_encode command = Inr cb"
    and "write_result w (cb @ [10]) = Done ()"
    and "read_result w (cb @ [10]) = Done avail"
    and "utf8_decode (take 1024 avail) = Inr text"
  shows "calls (fst (send_to_msagent w command st))
           = calls st @ [CreateFile, WriteFile (cb @ [10]), ReadFile 1024, CloseHandle]
    \<and> request (fst (send_to_msagent w command st)) = cb @ [10]
    \<and> snd (send_to_msagent w command st) = Returned (py_strip text)
    \<and> length (take 1024 avail) \<le> 1024
    \<and> (1024 < length avail \<longrightarrow> length (take 1024 avail) = 1024)"
proof -
  have e: "utf8_encode (command @ [10]) = Inr (cb @ [10])"
    using assms(2) by (simp add: utf8_encode_newline)
  show ?thesis
    using send_to_msagent_eq [OF round_trip_success [OF assms(1) e assms(3,4,5)]]
    by (simp add: logged_def written_def opened_def)
qed

theorem round_trip_framing_witness:
  "calls (fst (send_to_msagent (mock_peer (replicate 2000 65)) (lit ''PING'') idle))
     = [CreateFile, WriteFile (lit ''PING'' @ [10]), ReadFile 1024, CloseHandle]
   \<and> snd (send_to_msagent (mock_peer (replicate 2000 65)) (lit ''PING'') idle)
     = Returned (replicate 1024 65)"
proof -
  have c: "connect_result (mock_peer (replicate 2000 65)) = None"
    by (simp add: mock_peer_def)
  have e: "utf8_encode (lit ''PING'') = Inr (lit ''PING'')"
    by (rule utf8_encode_ascii) (simp add: lit_def)
  have h: "write_result (mock_peer (replicate 2000 65)) (lit ''PING'' @ [10]) = Done ()"
    "read_result (mock_peer (replicate 2000 65)) (lit ''PING'' @ [10])
       = Done (replicate 2000 65)"
    by (simp_all add: mock_peer_def)
  have t: "take 1024 (replicate 2000 65 :: nat list) = replicate 1024 65"
    by simp
  have d: "utf8_decode (take 1024 (replicate 2000 65)) = Inr (replicate 1024 65)"
    unfolding t by (rule utf8_decode_ascii) simp
  have s: "py_strip (replicate 1024 65) = replicate 1024 65"
    by (rule py_strip_no_space) (simp add: py_isspace_def)
  show ?thesis
    using round_trip_framing [OF c e h d, of idle] by (simp add: s idle_def)
qed

text \<open>
  Claim C9, as stated: the reply is returned with trailing whitespace removed and leading
  whitespace preserved. The code calls \<open>strip()\<close>, which removes whitespace at both
  ends: a reply of a space, \<open>PONG\<close> and a newline comes back as \<open>PONG\<close>.
\<close>

theorem send_strips_leading_whitespace_counterexample:
  "utf8_decode (take 1024 (lit '' PONG\<newline>'')) = Inr (lit '' PONG\<newline>'')
   \<and> snd (send_to_msagent (mock_peer (lit '' PONG\<newline>'')) (lit ''PING'') idle)
       = Returned (lit ''PONG'')
   \<and> lit ''PONG'' \<noteq> lit '' PONG''"
proof -
  have h: "connect_result (mock_peer (lit '' PONG\<newline>'')) = None"
    "utf8_encode (lit ''PING'' @ [10]) = Inr (lit ''PING'' @ [10])"
    "write_result (mock_peer (lit '' PONG\<newline>'')) (lit ''PING'' @ [10]) = Done ()"
    "read_result (mock_peer (lit '' PONG\<newline>'')) (lit ''PING'' @ [10])
       = Done (lit '' PONG\<newline>'')"
    by (simp_all add: mock_peer_def lit_ascii_PING)
  have d: "utf8_decode (take 1024 (lit '' PONG\<newline>'')) = Inr (lit '' PONG\<newline>'')"
    by (simp add: lit_def cons_cp_def)
  have s: "py_strip (lit '' PONG\<newline>'') = lit ''PONG''"
    by (simp add: py_strip_def lit_def py_isspace_def)
  have n: "lit ''PONG'' \<noteq> lit '' PONG''"
    by (simp add: lit_def)
  from send_to_msagent_eq [OF round_trip_success [OF h d]] d s n show ?thesis
    by simp
qed

text \<open>
  Claim C9, amended. On a successful round trip \<open>send_to_msagent\<close> returns the UTF-8
  decoding of the bytes read with the whitespace at both ends removed: the decoded text
  is whitespace, then the result, then whitespace, and a result that is not empty neither
  begins nor ends with a whitespace character.
\<close>

theorem send_returns_stripped_reply:
  assumes "connect_result w = None"
    and "utf8_encode (command @ [10]) = Inr bs"
    and "write_result w bs = Done ()"
    and "read_result w bs = Done avail"
    and "utf8_decode (take 1024 avail) = Inr text"
  shows "snd (send_to_msagent w command st) = Returned (py_strip text)
    \<and> (\<exists>pre post. text = pre @ py_strip text @ post
          \<and> (\<forall>c\<in>set pre. py_isspace c) \<and> (\<forall>c\<in>set post. py_isspace c))
    \<and> (py_strip text \<noteq> [] \<longrightarrow>
          \<not> py_isspace (hd (py_strip text)) \<and> \<not> py_isspace (last (py_strip text)))"
  using send_to_msagent_eq [OF round_trip_success [OF assms]] py_strip_decompose [of "text"]
    py_strip_ends [of "text"]
  by simp

theorem send_returns_stripped_reply_witness:
  "snd (send_to_msagent (mock_peer (lit ''  OK:a b\<newline>'')) (lit ''PING'') idle)
     = Returned (lit ''OK:a b'')
   \<and> \<not> py_isspace (hd (lit ''OK:a b'')) \<and> \<not> py_isspace (last (lit ''OK:a b''))"
proof -
  have h: "connect_result (mock_peer (lit ''  OK:a b\<newline>'')) = None"
    "utf8_encode (lit ''PING'' @ [10]) = Inr (lit ''PING'' @ [10])"
    "write_result (mock_peer (lit ''  OK:a b\<newline>'')) (lit ''PING'' @ [10]) = Done ()"
    "read_result (mock_peer (lit ''  OK:a b\<newline>'')) (lit ''PING'' @ [10])
       = Done (lit ''  OK:a b\<newline>'')"
    by (simp_all add: mock_peer_def lit_ascii_PING)
  have d: "utf8_decode (take 1024 (lit ''  OK:a b\<newline>'')) = Inr (lit ''  OK:a b\<newline>'')"
    by (simp add: lit_def cons_cp_def)
  have s: "py_strip (lit ''  OK:a b\<newline>'') = lit ''OK:a b''"
    by (simp add: py_strip_def lit_def py_isspace_def)
  have n: "lit ''OK:a b'' \<noteq> []"
    by (simp add: lit_def)
  show ?thesis
    using send_returns_stripped_reply [OF h d, of idle] n unfolding s by blast
qed

section \<open>Claims about the handlers\<close>

lemma health_Returned:
  "send_to_msagent w (lit ''PING'') st = (st', Returned r) \<Longrightarrow>
   health w st =
     (st', Returned \<lparr>status_code = 200,
            body = [(lit ''status'', PStr (lit ''ok'')),
                    (lit ''msagent_connected'', PBool (py_in (lit ''PONG'') r)),
                    (lit ''msagent_response'', PStr r)]\<rparr>)"
  by (simp add: health_def seq_def ret_def jsonify_def)

lemma health_not_Raised: "snd (health w st) \<noteq> Raised x"
proof (cases "send_to_msagent w (lit ''PING'') st")
  case (Pair st' r)
  then have "r \<noteq> Raised y" for y
    using except_clauses_not_Raised [of w "snd (round_trip w (lit ''PING'') st)" y]
      snd_send [of w "lit ''PING''" st] by simp
  with Pair show ?thesis
    by (cases r) (simp_all add: health_def seq_def ret_def)
qed

lemma no_PONG_in_sentinel: "\<not> py_in (lit ''PONG'') could_not_connect"
  by (simp add: could_not_connect_def lit_def)


text \<open>
  Claim C3. Whatever string \<open>send_to_msagent("PING")\<close> returns, an error string
  included, \<open>health\<close> answers with status 200 and a body in which \<open>status\<close> is
  \<open>ok\<close>, the connectivity flag says whether the returned string contains \<open>PONG\<close>
  as a substring, and the response field is that string unchanged. With no peer the
  answer is still 200, with the flag false and the sentinel as the response; \<open>health\<close>
  never raises.
\<close>

theorem health_reports_connectivity:
  "(snd (send_to_msagent w (lit ''PING'') st) = Returned r \<longrightarrow>
      health w st =
        (fst (send_to_msagent w (lit ''PING'') st),
         Returned \<lparr>status_code = 200,
            body = [(lit ''status'', PStr (lit ''ok'')),
                    (lit ''msagent_connected'', PBool (py_in (lit ''PONG'') r)),
                    (lit ''msagent_response'', PStr r)]\<rparr>))
   \<and> (py_in (lit ''PONG'') r \<longleftrightarrow> (\<exists>a b. r = a @ lit ''PONG'' @ b))
   \<and> (connect_result w = Some err \<longrightarrow>
        snd (health w st) =
          Returned \<lparr>status_code = 200,
            body = [(lit ''status'', PStr (lit ''ok'')),
                    (lit ''msagent_connected'', PBool False),
                    (lit ''msagent_response'',
                     PStr (lit ''ERROR:Could not connect to MSAgent-AI. Is it running?''))]\<rparr>)
   \<and> snd (health w st) \<noteq> Raised x"
proof (intro conjI impI)
  assume "snd (send_to_msagent w (lit ''PING'') st) = Returned r"
  then have "send_to_msagent w (lit ''PING'') st
      = (fst (send_to_msagent w (lit ''PING'') st), Returned r)"
    by (metis prod.collapse)
  then show "health w st =
        (fst (send_to_msagent w (lit ''PING'') st),
         Returned \<lparr>status_code = 200,
            body = [(lit ''status'', PStr (lit ''ok'')),
                    (lit ''msagent_connected'', PBool (py_in (lit ''PONG'') r)),
                    (lit ''msagent_response'', PStr r)]\<rparr>)"
    by (rule health_Returned)
next
  show "py_in (lit ''PONG'') r \<longleftrightarrow> (\<exists>a b. r = a @ lit ''PONG'' @ b)"
    by (rule py_in_iff)
next
  assume "connect_result w = Some err"
  then have "send_to_msagent w (lit ''PING'') st
      = (logged CreateFile st, Returned could_not_connect)"
    using send_to_msagent_eq [OF round_trip_connect_failed] by simp
  from health_Returned [OF this] show "snd (health w st) =
          Returned \<lparr>status_code = 200,
            body = [(lit ''status'', PStr (lit ''ok'')),
                    (lit ''msagent_connected'', PBool False),
                    (lit ''msagent_response'',
                     PStr (lit ''ERROR:Could not connect to MSAgent-AI. Is it running?''))]\<rparr>"
    using no_PONG_in_sentinel by (simp add: could_not_connect_def)
next
  show "snd (health w st) \<noteq> Raised x"
    by (rule health_not_Raised)
qed

theorem health_reports_connectivity_witness:
  "snd (health (mock_peer (lit ''PONG\<newline>'')) idle) =
     Returned \<lparr>status_code = 200,
        body = [(lit ''status'', PStr (lit ''ok'')),
                (lit ''msagent_connected'', PBool True),
                (lit ''msagent_response'', PStr (lit ''PONG''))]\<rparr>
   \<and> snd (health absent_peer idle) =
     Returned \<lparr>status_code = 200,
        body = [(lit ''status'', PStr (lit ''ok'')),
                (lit ''msagent_connected'', PBool False),
                (lit ''msagent_response'',
                 PStr (lit ''ERROR:Could not connect to MSAgent-AI. Is it running?''))]\<rparr>"
proof -
  have h: "connect_result (mock_peer (lit ''PONG\<newline>'')) = None"
    "utf8_encode (lit ''PING'' @ [10]) = Inr (lit ''PING'' @ [10])"
    "write_result (mock_peer (lit ''PONG\<newline>'')) (lit ''PING'' @ [10]) = Done ()"
    "read_result (mock_peer (lit ''PONG\<newline>'')) (lit ''PING'' @ [10])
       = Done (lit ''PONG\<newline>'')"
    by (simp_all add: mock_peer_def lit_ascii_PING)
  have d: "utf8_decode (take 1024 (lit ''PONG\<newline>'')) = Inr (lit ''PONG\<newline>'')"
    by (simp add: lit_def cons_cp_def)
  have s: "py_strip (lit ''PONG\<newline>'') = lit ''PONG''"
    by (simp add: py_strip_def lit_def py_isspace_def)
  have r: "snd (send_to_msagent (mock_peer (lit ''PONG\<newline>'')) (lit ''PING'') idle)
      = Returned (lit ''PONG'')"
    using send_to_msagent_eq [OF round_trip_success [OF h d]] s by simp
  have p: "py_in (lit ''PONG'') (lit ''PONG'')"
    by (simp add: lit_def)
  have a: "connect_result absent_peer = Some 2"
    by (simp add: absent_peer_def mock_peer_def)
  show ?thesis
    using health_reports_connectivity
        [of "mock_peer (lit ''PONG\<newline>'')" idle "lit ''PONG''"] r p
      health_reports_connectivity [of absent_peer idle _ 2] a
    by simp
qed

section \<open>Facts about number formatting and the prompts\<close>

lemma digits_small: "n < 10 \<Longrightarrow> digits n = [48 + n]"
  by (subst digits.simps) simp

lemma digits_large: "10 \<le> n \<Longrightarrow> digits n = digits (n div 10) @ [48 + n mod 10]"
  by (subst digits.simps) simp

lemma bit_length_0: "bit_length 0 = 0"
  by (subst bit_length.simps) simp

lemma bit_length_le: "n < 2 ^ k \<Longrightarrow> bit_length n \<le> k"
proof (induction k arbitrary: n)
  case 0
  then show ?case by (simp add: bit_length_0)
next
  case (Suc k)
  show ?case
  proof (cases "n = 0")
    case True
    then show ?thesis by (simp add: bit_length_0)
  next
    case False
    from Suc.prems have "n div 2 < 2 ^ k" by simp
    then have "bit_length (n div 2) \<le> k" by (rule Suc.IH)
    with False show ?thesis by (subst bit_length.simps) simp
  qed
qed

lemma round_half_even_1: "round_half_even a (Suc 0) = a"
  by (simp add: round_half_even_def)

lemma int_to_float_small:
  assumes "\<bar>n\<bar> < 2 ^ 53"
  shows "int_to_float n = Inr (Fin (n < 0) (nat \<bar>n\<bar>) 0)"
proof -
  from assms have a: "nat \<bar>n\<bar> < 2 ^ 53"
    by (simp add: nat_less_iff)
  then have b: "bit_length (nat \<bar>n\<bar>) \<le> 53" by (rule bit_length_le)
  then have k: "bit_length (nat \<bar>n\<bar>) - 53 = 0" by simp
  from a have q: "nat \<bar>n\<bar> \<noteq> 2 ^ 53" by simp
  from b have e: "\<not> 1024 < bit_length (nat \<bar>n\<bar>)" by simp
  show ?thesis
    unfolding int_to_float_def Let_def k
    using q e by (simp add: round_half_even_1)
qed

text \<open>
  The integers that do not convert to a double are those of magnitude at least
  \<open>2 ^ 1024 - 2 ^ 970\<close>, halfway between the largest double and \<open>2 ^ 1024\<close>.
\<close>

lemma bit_length_gt: "2 ^ k \<le> n \<Longrightarrow> k < bit_length n"
proof (induction k arbitrary: n)
  case 0
  then show ?case by (subst bit_length.simps) simp
next
  case (Suc k)
  from Suc.prems have "2 ^ k \<le> n div 2" by simp
  then have "k < bit_length (n div 2)" by (rule Suc.IH)
  moreover have "n \<noteq> 0"
  proof
    assume "n = 0"
    with Suc.prems show False by simp
  qed
  ultimately show ?case by (subst bit_length.simps) simp
qed

lemma round_half_even_carry:
  assumes "2 ^ 1023 \<le> a" and "a < 2 ^ 1024"
  shows "round_half_even a (2 ^ 971) = 2 ^ 53 \<longleftrightarrow> 2 ^ 1024 - 2 ^ 970 \<le> a"
proof -
  define D :: nat where "D = 2 ^ 970"
  define qd where "qd = a div (2 * D)"
  define r where "r = a mod (2 * D)"
  have D: "0 < D" by (simp add: D_def)
  have p: "(2::nat) ^ 971 = 2 * D" "(2::nat) ^ 1024 = 2 ^ 53 * (2 * D)"
    by (simp_all add: D_def flip: power_add power_Suc)
  have a: "a = 2 * D * qd + r" and r: "r < 2 * D"
    using D by (simp_all add: qd_def r_def)
  have qd: "qd < 2 ^ 53"
    using assms(2) unfolding p qd_def by (simp add: less_mult_imp_div_less mult.commute)
  have thr: "(2::nat) ^ 1024 - 2 ^ 970 = 2 * D * (2 ^ 53 - 1) + D"
    unfolding p by (simp add: D_def algebra_simps)
  have odd: "odd ((2::nat) ^ 53 - 1)" by simp
  show ?thesis
  proof (cases "qd = 2 ^ 53 - 1")
    case True
    have "round_half_even a (2 * D) = 2 ^ 53 \<longleftrightarrow> D \<le> r"
      using True odd D unfolding round_half_even_def Let_def qd_def [symmetric] r_def [symmetric]
      by auto
    moreover have "2 * D * (2 ^ 53 - 1) + D \<le> a \<longleftrightarrow> D \<le> r"
      unfolding a True by simp
    ultimately show ?thesis unfolding p(1) thr by simp
  next
    case False
    with qd have q2: "qd + 2 \<le> 2 ^ 53" by simp
    then have "round_half_even a (2 * D) \<noteq> 2 ^ 53"
      unfolding round_half_even_def Let_def qd_def [symmetric] r_def [symmetric]
      by auto
    moreover have "a < 2 * D * (2 ^ 53 - 1) + D"
    proof -
      have "2 * D * qd + r < 2 * D * (qd + 1)" using r by simp
      also have "\<dots> \<le> 2 * D * (2 ^ 53 - 1)"
        using q2 by (intro mult_le_mono2) simp
      finally show ?thesis unfolding a by simp
    qed
    ultimately show ?thesis unfolding p(1) thr by simp
  qed
qed

lemma int_to_float_overflow_iff:
  "int_to_float n = Inl OverflowError \<longleftrightarrow> 2 ^ 1024 - 2 ^ 970 \<le> \<bar>n\<bar>"
proof -
  define a where "a = nat \<bar>n\<bar>"
  have t: "2 ^ 1024 - 2 ^ 970 \<le> \<bar>n\<bar> \<longleftrightarrow> 2 ^ 1024 - 2 ^ 970 \<le> a"
  proof -
    have "(2::int) ^ 1024 - 2 ^ 970 = int (2 ^ 1024 - 2 ^ 970)"
      by (simp add: of_nat_diff)
    then show ?thesis unfolding a_def by (simp only: zle_int [symmetric]) simp
  qed
  have le: "(2::nat) ^ 1023 \<le> 2 ^ 1024 - 2 ^ 970"
  proof -
    have "(2::nat) ^ 1024 = 2 ^ 1023 + 2 ^ 1023" by simp
    moreover have "(2::nat) ^ 970 \<le> 2 ^ 1023" by (rule power_increasing) simp_all
    ultimately show ?thesis by simp
  qed
  consider "a < 2 ^ 1023" | "2 ^ 1023 \<le> a" "a < 2 ^ 1024" | "2 ^ 1024 \<le> a"
    by linarith
  then have "int_to_float n = Inl OverflowError \<longleftrightarrow> 2 ^ 1024 - 2 ^ 970 \<le> a"
  proof cases
    case 1
    then have b: "bit_length a \<le> 1023" by (rule bit_length_le)
    from 1 le have "\<not> 2 ^ 1024 - 2 ^ 970 \<le> a" by simp
    moreover from b have "int_to_float n \<noteq> Inl OverflowError"
      unfolding int_to_float_def Let_def a_def [symmetric] by (simp split: if_splits)
    ultimately show ?thesis by simp
  next
    case 2
    have "bit_length a \<le> 1024" using 2(2) by (rule bit_length_le)
    moreover have "1023 < bit_length a" using 2(1) by (rule bit_length_gt)
    ultimately have b: "bit_length a = 1024" by simp
    have "int_to_float n = Inl OverflowError \<longleftrightarrow> round_half_even a (2 ^ 971) = 2 ^ 53"
      unfolding int_to_float_def Let_def a_def [symmetric] b by (simp split: if_splits)
    then show ?thesis using round_half_even_carry [OF 2] by simp
  next
    case 3
    then have b: "1024 < bit_length a" by (rule bit_length_gt)
    have "2 ^ 1024 - 2 ^ 970 \<le> a" using 3 by simp
    moreover from b have "int_to_float n = Inl OverflowError"
      unfolding int_to_float_def Let_def a_def [symmetric] by simp
    ultimately show ?thesis by simp
  qed
  with t show ?thesis by simp
qed

lemma is_number_int_iff: "is_number (PInt n) \<longleftrightarrow> \<bar>n\<bar> < 2 ^ 1024 - 2 ^ 970"
proof -
  have "is_number (PInt n) \<longleftrightarrow> int_to_float n \<noteq> Inl OverflowError"
    by (auto simp: int_to_float_def Let_def split: sum.splits)
  then show ?thesis by (simp add: int_to_float_overflow_iff not_le)
qed

lemma is_number_format: "is_number v \<Longrightarrow> \<exists>t. py_format_f p v = Inr t"
  by (cases v) (auto simp: int_to_float_small split: sum.splits)

lemma format_not_number: "\<not> is_number v \<Longrightarrow> \<exists>e. py_format_f p v = Inl e"
  by (cases v) (auto simp: int_to_float_small split: sum.splits)

lemma format_80: "py_format_f 0 (PInt 80) = Inr (lit ''80'')"
  by (simp add: int_to_float_small fixed_def digits_large digits_small lit_def)

lemma format_0: "py_format_f 0 (PInt 0) = Inr (lit ''0'')"
  by (simp add: int_to_float_small fixed_def digits_small lit_def)

lemma format_0_1: "py_format_f 1 (PInt 0) = Inr (lit ''0.0'')"
  by (simp add: int_to_float_small fixed_def digits_small lit_def)

lemma format_half: "py_format_f 1 (PFloat (Fin False 1 (- 1))) = Inr (lit ''0.5'')"
  by (simp add: round_half_even_def fixed_def digits_small lit_def)

lemma format_75: "py_format_f 0 (PInt 75) = Inr (lit ''75'')"
  by (simp add: int_to_float_small fixed_def digits_large digits_small lit_def)

lemma py_get_dict: "py_get (PDict kvs) key dflt = Inr (field_or kvs key dflt)"
  by (simp add: field_or_def)

lemma field_or_Some: "map_of kvs key = Some v \<Longrightarrow> field_or kvs key dflt = v"
  by (simp add: field_or_def)

lemma field_or_number:
  "number_if_present kvs key \<Longrightarrow> is_number (field_or kvs key (PInt 0))"
  by (auto simp: number_if_present_def field_or_def int_to_float_small split: option.splits)

lemma vehicle_prompt_dict:
  "vehicle_prompt w (PDict kvs) =
     Inr (lit ''I just spawned a ''
          @ py_str (repr w) (field_or kvs (lit ''vehicle_name'') (PStr (lit ''Unknown'')))
          @ lit '' '' @ py_str (repr w) (field_or kvs (lit ''vehicle_model'') (PStr []))
          @ lit '' in BeamNG! Make an excited comment about this vehicle.'')"
  by (simp add: vehicle_prompt_def andthen_def py_get_dict del: py_get.simps)

lemma dent_prompt_dict:
  "dent_prompt w (PDict kvs) =
     Inr (lit ''My ''
          @ py_str (repr w) (field_or kvs (lit ''vehicle_name'') (PStr (lit ''Unknown'')))
          @ lit '' just got a big dent! Make a comment about the damage.'')"
  by (simp add: dent_prompt_def andthen_def py_get_dict del: py_get.simps)

lemma scratch_prompt_dict:
  "scratch_prompt w (PDict kvs) =
     Inr (lit ''Just scratched the paint on my ''
          @ py_str (repr w) (field_or kvs (lit ''vehicle_name'') (PStr (lit ''Unknown'')))
          @ lit ''. Make a light comment.'')"
  by (simp add: scratch_prompt_def andthen_def py_get_dict del: py_get.simps)

lemma crash_prompt_dict:
  assumes "py_format_f 0 (field_or kvs (lit ''speed_before'') (PInt 0)) = Inr speed_text"
    and "py_format_f 1 (field_or kvs (lit ''damage_level'') (PInt 0)) = Inr damage_text"
  shows "crash_prompt w (PDict kvs) =
     Inr (lit ''I just crashed my ''
          @ py_str (repr w) (field_or kvs (lit ''vehicle_name'') (PStr (lit ''Unknown'')))
          @ lit '' at '' @ speed_text @ lit '' km/h! The damage is pretty bad (''
          @ damage_text @ lit ''). React dramatically!'')"
  using assms by (simp add: crash_prompt_def andthen_def py_get_dict del: py_get.simps)

lemma surroundings_prompt_dict:
  assumes "py_format_f 0 (field_or kvs (lit ''speed'') (PInt 0)) = Inr speed_text"
  shows "surroundings_prompt w (PDict kvs) =
     Inr (lit ''I'm driving my ''
          @ py_str (repr w) (field_or kvs (lit ''vehicle_name'') (PStr (lit ''Unknown'')))
          @ lit '' at '' @ speed_text @ lit '' km/h in ''
          @ py_str (repr w) (field_or kvs (lit ''location'') (PStr (lit ''Unknown'')))
          @ lit ''. Comment on the scene!'')"
  using assms by (simp add: surroundings_prompt_def andthen_def py_get_dict del: py_get.simps)

lemma send_chat_Inl: "send_chat w (Inl e) st = (st, Raised e)"
  by (simp add: send_chat_def seq_def lift_def)

lemma send_chat_fst:
  "fst (send_chat w (Inr prompt) st) = fst (send_to_msagent w (lit ''CHAT:'' @ prompt) st)"
  by (cases "send_to_msagent w (lit ''CHAT:'' @ prompt) st")
     (auto simp: send_chat_def seq_def lift_def ret_def split: outcome.splits)

lemma send_chat_snd:
  "snd (send_to_msagent w (lit ''CHAT:'' @ prompt) st) = Returned r \<Longrightarrow>
   snd (send_chat w (Inr prompt) st) = Returned \<lparr>status_code = 200,
      body = [(lit ''status'', PStr (lit ''ok''))]\<rparr>"
  by (cases "send_to_msagent w (lit ''CHAT:'' @ prompt) st")
     (auto simp: send_chat_def seq_def lift_def ret_def status_ok_def jsonify_def)

lemma comment_on_crash_sends:
  assumes "crash_prompt w data = Inr prompt"
  shows "fst (comment_on_crash w data st) = fst (send_to_msagent w (lit ''CHAT:'' @ prompt) st)
    \<and> (snd (send_to_msagent w (lit ''CHAT:'' @ prompt) st) = Returned r \<longrightarrow>
         snd (comment_on_crash w data st) = Returned \<lparr>status_code = 200,
           body = [(lit ''status'', PStr (lit ''ok''))]\<rparr>)"
  using assms send_chat_fst [of w prompt st] send_chat_snd [of w prompt st r]
  by (simp add: comment_on_crash_def)

lemma CHAT_crash:
  "lit ''CHAT:'' @ lit ''I just crashed my '' @ name @ lit '' at '' @ s
     @ lit '' km/h! The damage is pretty bad ('' @ d @ lit ''). React dramatically!''
   = lit ''CHAT:I just crashed my '' @ name @ lit '' at '' @ s
     @ lit '' km/h! The damage is pretty bad ('' @ d @ lit ''). React dramatically!''"
  by (simp add: lit_def)

lemma mock_peer_round_trip:
  assumes "\<forall>c\<in>set command. c < 128" and "\<forall>b\<in>set reply. b < 128"
  shows "send_to_msagent (mock_peer reply) command idle =
     (\<lparr>calls = [CreateFile, WriteFile (command @ [10]), ReadFile 1024, CloseHandle],
       open_handles = 0, request = command @ [10]\<rparr>,
      Returned (py_strip (take 1024 reply)))"
proof -
  have e: "utf8_encode (command @ [10]) = Inr (command @ [10])"
    using assms(1) by (intro utf8_encode_ascii) simp
  have d: "utf8_decode (take 1024 reply) = Inr (take 1024 reply)"
    using assms(2) by (intro utf8_decode_ascii) (auto dest: in_set_takeD)
  have h: "connect_result (mock_peer reply) = None"
    "write_result (mock_peer reply) (command @ [10]) = Done ()"
    "read_result (mock_peer reply) (command @ [10]) = Done reply"
    by (simp_all add: mock_peer_def)
  show ?thesis
    using send_to_msagent_eq [OF round_trip_success [OF h(1) e h(2,3) d], of idle]
    by (simp add: logged_def written_def opened_def idle_def)
qed


text \<open>
  Claim C1, as stated: for every payload that supplies \<open>vehicle_name\<close>,
  \<open>speed_before\<close> and \<open>damage_level\<close> the crash handler sends the command built
  from the template. A payload is untyped: when \<open>speed_before\<close> is the string
  \<open>"80"\<close> the format specification \<open>.0f\<close> raises \<open>ValueError\<close>, the handler
  raises with it and nothing is sent.
\<close>

theorem crash_string_speed_counterexample:
  "comment_on_crash (mock_peer (lit ''OK:ack''))
     (PDict [(lit ''vehicle_name'', PStr (lit ''D-Series'')),
             (lit ''speed_before'', PStr (lit ''80'')),
             (lit ''damage_level'', PFloat (Fin False 1 (- 1)))]) idle
   = (idle, Raised ValueError)"
proof -
  have "crash_prompt (mock_peer (lit ''OK:ack''))
     (PDict [(lit ''vehicle_name'', PStr (lit ''D-Series'')),
             (lit ''speed_before'', PStr (lit ''80'')),
             (lit ''damage_level'', PFloat (Fin False 1 (- 1)))]) = Inl ValueError"
    by (simp add: crash_prompt_def andthen_def lit_def)
  then show ?thesis
    by (simp add: comment_on_crash_def send_chat_Inl)
qed

text \<open>
  Claim C1, amended. For every payload that supplies \<open>vehicle_name\<close> and supplies
  \<open>speed_before\<close> and \<open>damage_level\<close> as numbers (a double, a boolean or an integer
  that converts to a double), the crash handler sends \<open>CHAT:I just crashed my\<close>
  \<open>{vehicle_name} at {speed_before:.0f} km/h! The damage is pretty bad\<close>
  \<open>({damage_level:.1f}). React dramatically!\<close> and, when the send returns, answers
  200 with \<open>{"status": "ok"}\<close>. For the payload with \<open>D-Series\<close>, 80 and 0.5
  the command is \<open>CHAT:I just crashed my D-Series at 80 km/h! The damage is pretty bad\<close>
  \<open>(0.5). React dramatically!\<close>.
\<close>

theorem crash_command_template:
  "(map_of kvs (lit ''vehicle_name'') = Some name
    \<and> map_of kvs (lit ''speed_before'') = Some speed \<and> is_number speed
    \<and> map_of kvs (lit ''damage_level'') = Some damage \<and> is_number damage \<longrightarrow>
    (\<exists>speed_text damage_text.
       py_format_f 0 speed = Inr speed_text \<and> py_format_f 1 damage = Inr damage_text
     \<and> fst (comment_on_crash w (PDict kvs) st)
         = fst (send_to_msagent w
             (lit ''CHAT:I just crashed my '' @ py_str (repr w) name @ lit '' at ''
              @ speed_text @ lit '' km/h! The damage is pretty bad ('' @ damage_text
              @ lit ''). React dramatically!'') st)
     \<and> (\<forall>r. snd (send_to_msagent w
             (lit ''CHAT:I just crashed my '' @ py_str (repr w) name @ lit '' at ''
              @ speed_text @ lit '' km/h! The damage is pretty bad ('' @ damage_text
              @ lit ''). React dramatically!'') st) = Returned r \<longrightarrow>
          snd (comment_on_crash w (PDict kvs) st) = Returned \<lparr>status_code = 200,
            body = [(lit ''status'', PStr (lit ''ok''))]\<rparr>)))
   \<and> fst (comment_on_crash w
        (PDict [(lit ''vehicle_name'', PStr (lit ''D-Series'')),
                (lit ''speed_before'', PInt 80),
                (lit ''damage_level'', PFloat (Fin False 1 (- 1)))]) st)
       = fst (send_to_msagent w
           (lit ''CHAT:I just crashed my D-Series at 80 km/h! The damage is pretty bad (0.5). React dramatically!'')
           st)
   \<and> (snd (send_to_msagent w
           (lit ''CHAT:I just crashed my D-Series at 80 km/h! The damage is pretty bad (0.5). React dramatically!'')
           st) = Returned r' \<longrightarrow>
        snd (comment_on_crash w
          (PDict [(lit ''vehicle_name'', PStr (lit ''D-Series'')),
                  (lit ''speed_before'', PInt 80),
                  (lit ''damage_level'', PFloat (Fin False 1 (- 1)))]) st)
          = Returned \<lparr>status_code = 200, body = [(lit ''status'', PStr (lit ''ok''))]\<rparr>)"
proof -
  have general: "\<exists>speed_text damage_text.
       py_format_f 0 speed = Inr speed_text \<and> py_format_f 1 damage = Inr damage_text
     \<and> fst (comment_on_crash w (PDict kvs) st)
         = fst (send_to_msagent w
             (lit ''CHAT:I just crashed my '' @ py_str (repr w) name @ lit '' at ''
              @ speed_text @ lit '' km/h! The damage is pretty bad ('' @ damage_text
              @ lit ''). React dramatically!'') st)
     \<and> (\<forall>r. snd (send_to_msagent w
             (lit ''CHAT:I just crashed my '' @ py_str (repr w) name @ lit '' at ''
              @ speed_text @ lit '' km/h! The damage is pretty bad ('' @ damage_text
              @ lit ''). React dramatically!'') st) = Returned r \<longrightarrow>
          snd (comment_on_crash w (PDict kvs) st) = Returned \<lparr>status_code = 200,
            body = [(lit ''status'', PStr (lit ''ok''))]\<rparr>)"
    if a: "map_of kvs (lit ''vehicle_name'') = Some name
      \<and> map_of kvs (lit ''speed_before'') = Some speed \<and> is_number speed
      \<and> map_of kvs (lit ''damage_level'') = Some damage \<and> is_number damage"
  proof -
    from a obtain s where s: "py_format_f 0 speed = Inr s"
      using is_number_format by blast
    from a obtain d where d: "py_format_f 1 damage = Inr d"
      using is_number_format by blast
    have f: "field_or kvs (lit ''vehicle_name'') (PStr (lit ''Unknown'')) = name"
      "field_or kvs (lit ''speed_before'') (PInt 0) = speed"
      "field_or kvs (lit ''damage_level'') (PInt 0) = damage"
      using a by (simp_all add: field_or_Some)
    have p: "crash_prompt w (PDict kvs) =
       Inr (lit ''I just crashed my '' @ py_str (repr w) name @ lit '' at '' @ s
            @ lit '' km/h! The damage is pretty bad ('' @ d @ lit ''). React dramatically!'')"
      using crash_prompt_dict [of kvs s d w] s d by (simp only: f)
    show ?thesis
      using comment_on_crash_sends [OF p, of st] s d unfolding CHAT_crash by blast
  qed
  have inst: "crash_prompt w
        (PDict [(lit ''vehicle_name'', PStr (lit ''D-Series'')),
                (lit ''speed_before'', PInt 80),
                (lit ''damage_level'', PFloat (Fin False 1 (- 1)))])
      = Inr (lit ''I just crashed my D-Series at 80 km/h! The damage is pretty bad (0.5). React dramatically!'')"
  proof -
    have f: "field_or [(lit ''vehicle_name'', PStr (lit ''D-Series'')),
                (lit ''speed_before'', PInt 80),
                (lit ''damage_level'', PFloat (Fin False 1 (- 1)))] (lit ''vehicle_name'')
                (PStr (lit ''Unknown'')) = PStr (lit ''D-Series'')"
      "field_or [(lit ''vehicle_name'', PStr (lit ''D-Series'')),
                (lit ''speed_before'', PInt 80),
                (lit ''damage_level'', PFloat (Fin False 1 (- 1)))] (lit ''speed_before'')
                (PInt 0) = PInt 80"
      "field_or [(lit ''vehicle_name'', PStr (lit ''D-Series'')),
                (lit ''speed_before'', PInt 80),
                (lit ''damage_level'', PFloat (Fin False 1 (- 1)))] (lit ''damage_level'')
                (PInt 0) = PFloat (Fin False 1 (- 1))"
      by (simp_all add: field_or_def lit_def)
    show ?thesis
      by (subst crash_prompt_dict [where speed_text = "lit ''80''"
            and damage_text = "lit ''0.5''"])
         (simp_all only: f format_80 format_half py_str.simps, simp add: lit_def)
  qed
  have c: "lit ''CHAT:'' @ lit ''I just crashed my D-Series at 80 km/h! The damage is pretty bad (0.5). React dramatically!''
      = lit ''CHAT:I just crashed my D-Series at 80 km/h! The damage is pretty bad (0.5). React dramatically!''"
    by (simp add: lit_def)
  show ?thesis
    using general comment_on_crash_sends [OF inst, of st r'] unfolding c by blast
qed

theorem crash_command_template_witness:
  "map_of [(lit ''vehicle_name'', PStr (lit ''D-Series'')), (lit ''speed_before'', PInt 80),
           (lit ''damage_level'', PFloat (Fin False 1 (- 1)))] (lit ''speed_before'')
     = Some (PInt 80)
   \<and> is_number (PInt 80) \<and> is_number (PFloat (Fin False 1 (- 1)))
   \<and> calls (fst (comment_on_crash (mock_peer (lit ''OK:ack''))
        (PDict [(lit ''vehicle_name'', PStr (lit ''D-Series'')),
                (lit ''speed_before'', PInt 80),
                (lit ''damage_level'', PFloat (Fin False 1 (- 1)))]) idle))
       = [CreateFile,
          WriteFile (lit ''CHAT:I just crashed my D-Series at 80 km/h! The damage is pretty bad (0.5). React dramatically!\<newline>''),
          ReadFile 1024, CloseHandle]
   \<and> snd (comment_on_crash (mock_peer (lit ''OK:ack''))
        (PDict [(lit ''vehicle_name'', PStr (lit ''D-Series'')),
                (lit ''speed_before'', PInt 80),
                (lit ''damage_level'', PFloat (Fin False 1 (- 1)))]) idle)
       = Returned \<lparr>status_code = 200, body = [(lit ''status'', PStr (lit ''ok''))]\<rparr>"
proof -
  let ?kvs = "[(lit ''vehicle_name'', PStr (lit ''D-Series'')), (lit ''speed_before'', PInt 80),
           (lit ''damage_level'', PFloat (Fin False 1 (- 1)))]"
  let ?cmd = "lit ''CHAT:I just crashed my D-Series at 80 km/h! The damage is pretty bad (0.5). React dramatically!''"
  have hyp: "map_of ?kvs (lit ''vehicle_name'') = Some (PStr (lit ''D-Series''))
    \<and> map_of ?kvs (lit ''speed_before'') = Some (PInt 80) \<and> is_number (PInt 80)
    \<and> map_of ?kvs (lit ''damage_level'') = Some (PFloat (Fin False 1 (- 1)))
    \<and> is_number (PFloat (Fin False 1 (- 1)))"
    by (simp add: lit_def int_to_float_small)
  have c: "lit ''CHAT:I just crashed my '' @ py_str rp (PStr (lit ''D-Series'')) @ lit '' at ''
      @ lit ''80'' @ lit '' km/h! The damage is pretty bad ('' @ lit ''0.5''
      @ lit ''). React dramatically!'' = ?cmd" for rp
    by (simp add: lit_def)
  have s: "send_to_msagent (mock_peer (lit ''OK:ack'')) ?cmd idle =
     (\<lparr>calls = [CreateFile, WriteFile (?cmd @ [10]), ReadFile 1024, CloseHandle],
       open_handles = 0, request = ?cmd @ [10]\<rparr>,
      Returned (py_strip (take 1024 (lit ''OK:ack''))))"
    by (rule mock_peer_round_trip) (simp_all add: lit_def)
  have n: "?cmd @ [10] = lit ''CHAT:I just crashed my D-Series at 80 km/h! The damage is pretty bad (0.5). React dramatically!\<newline>''"
    by (simp add: lit_def)
  from crash_command_template
    [of ?kvs "PStr (lit ''D-Series'')" "PInt 80" "PFloat (Fin False 1 (- 1))"
        "mock_peer (lit ''OK:ack'')" idle] hyp
  obtain st dt where t: "py_format_f 0 (PInt 80) = Inr st"
    "py_format_f 1 (PFloat (Fin False 1 (- 1))) = Inr dt"
    "fst (comment_on_crash (mock_peer (lit ''OK:ack'')) (PDict ?kvs) idle)
         = fst (send_to_msagent (mock_peer (lit ''OK:ack''))
             (lit ''CHAT:I just crashed my ''
              @ py_str (repr (mock_peer (lit ''OK:ack''))) (PStr (lit ''D-Series''))
              @ lit '' at '' @ st @ lit '' km/h! The damage is pretty bad ('' @ dt
              @ lit ''). React dramatically!'') idle)"
    "\<forall>r. snd (send_to_msagent (mock_peer (lit ''OK:ack''))
             (lit ''CHAT:I just crashed my ''
              @ py_str (repr (mock_peer (lit ''OK:ack''))) (PStr (lit ''D-Series''))
              @ lit '' at '' @ st @ lit '' km/h! The damage is pretty bad ('' @ dt
              @ lit ''). React dramatically!'') idle) = Returned r \<longrightarrow>
          snd (comment_on_crash (mock_peer (lit ''OK:ack'')) (PDict ?kvs) idle)
            = Returned \<lparr>status_code = 200, body = [(lit ''status'', PStr (lit ''ok''))]\<rparr>"
    by blast
  have "st = lit ''80''" using t(1) unfolding format_80 by simp
  moreover have "dt = lit ''0.5''" using t(2) unfolding format_half by simp
  ultimately have
    "fst (comment_on_crash (mock_peer (lit ''OK:ack'')) (PDict ?kvs) idle)
       = fst (send_to_msagent (mock_peer (lit ''OK:ack'')) ?cmd idle)"
    "\<forall>r. snd (send_to_msagent (mock_peer (lit ''OK:ack'')) ?cmd idle) = Returned r \<longrightarrow>
          snd (comment_on_crash (mock_peer (lit ''OK:ack'')) (PDict ?kvs) idle)
            = Returned \<lparr>status_code = 200, body = [(lit ''status'', PStr (lit ''ok''))]\<rparr>"
    using t(3,4) by (simp_all only: c)
  with s n hyp show ?thesis by simp
qed

lemma send_chat_answers:
  assumes "prompt = Inr p"
  shows "\<forall>r. snd (send_to_msagent w (lit ''CHAT:'' @ p) st) = Returned r \<longrightarrow>
           snd (send_chat w prompt st)
             = Returned \<lparr>status_code = 200, body = [(lit ''status'', PStr (lit ''ok''))]\<rparr>"
  using assms send_chat_snd [of w p st] by blast

lemma absent_peer_send:
  "snd (send_to_msagent absent_peer command idle) = Returned could_not_connect"
proof -
  have "connect_result absent_peer = Some 2"
    by (simp add: absent_peer_def mock_peer_def)
  from send_to_msagent_eq [OF round_trip_connect_failed [OF this]] show ?thesis
    by simp
qed


text \<open>
  Claim C4, as stated: for every successfully decoded JSON payload and every IPC outcome
  each of the five event handlers returns exactly \<open>{"status": "ok"}\<close>. The
  surroundings handler formats \<open>speed\<close> with \<open>.0f\<close>: when the decoded payload
  carries the speed as the string \<open>"75"\<close> the handler raises \<open>ValueError\<close> and
  returns no body at all.
\<close>

theorem surroundings_string_speed_counterexample:
  "comment_on_surroundings (mock_peer (lit ''OK:ack''))
     (PDict [(lit ''vehicle_name'', PStr (lit ''ETK K-Series'')),
             (lit ''location'', PStr (lit ''Italy'')),
             (lit ''speed'', PStr (lit ''75''))]) idle
   = (idle, Raised ValueError)"
proof -
  have "surroundings_prompt (mock_peer (lit ''OK:ack''))
     (PDict [(lit ''vehicle_name'', PStr (lit ''ETK K-Series'')),
             (lit ''location'', PStr (lit ''Italy'')),
             (lit ''speed'', PStr (lit ''75''))]) = Inl ValueError"
    by (simp add: surroundings_prompt_def andthen_def lit_def)
  then show ?thesis
    by (simp add: comment_on_surroundings_def send_chat_Inl)
qed

text \<open>
  Claim C4, amended. For every JSON object as payload, every IPC outcome, that is
  whatever string \<open>send_to_msagent\<close> returns, leads the vehicle, dent and scratch
  handlers to answer 200 with exactly \<open>{"status": "ok"}\<close>; so do the crash and the
  surroundings handler provided the fields they format as numbers (\<open>speed_before\<close>,
  \<open>damage_level\<close>, \<open>speed\<close>) are numbers when present. The string returned by
  \<open>send_to_msagent\<close> does not occur in the answer.
\<close>

theorem event_handlers_answer_ok:
  "(\<exists>p. vehicle_prompt w (PDict kvs) = Inr p
      \<and> (\<forall>r. snd (send_to_msagent w (lit ''CHAT:'' @ p) st) = Returned r \<longrightarrow>
            snd (comment_on_vehicle w (PDict kvs) st)
              = Returned \<lparr>status_code = 200, body = [(lit ''status'', PStr (lit ''ok''))]\<rparr>))
   \<and> (number_if_present kvs (lit ''speed_before'')
      \<and> number_if_present kvs (lit ''damage_level'') \<longrightarrow>
      (\<exists>p. crash_prompt w (PDict kvs) = Inr p
        \<and> (\<forall>r. snd (send_to_msagent w (lit ''CHAT:'' @ p) st) = Returned r \<longrightarrow>
              snd (comment_on_crash w (PDict kvs) st)
                = Returned \<lparr>status_code = 200, body = [(lit ''status'', PStr (lit ''ok''))]\<rparr>)))
   \<and> (\<exists>p. dent_prompt w (PDict kvs) = Inr p
      \<and> (\<forall>r. snd (send_to_msagent w (lit ''CHAT:'' @ p) st) = Returned r \<longrightarrow>
            snd (comment_on_dent w (PDict kvs) st)
              = Returned \<lparr>status_code = 200, body = [(lit ''status'', PStr (lit ''ok''))]\<rparr>))
   \<and> (\<exists>p. scratch_prompt w (PDict kvs) = Inr p
      \<and> (\<forall>r. snd (send_to_msagent w (lit ''CHAT:'' @ p) st) = Returned r \<longrightarrow>
            snd (comment_on_scratch w (PDict kvs) st)
              = Returned \<lparr>status_code = 200, body = [(lit ''status'', PStr (lit ''ok''))]\<rparr>))
   \<and> (number_if_present kvs (lit ''speed'') \<longrightarrow>
      (\<exists>p. surroundings_prompt w (PDict kvs) = Inr p
        \<and> (\<forall>r. snd (send_to_msagent w (lit ''CHAT:'' @ p) st) = Returned r \<longrightarrow>
              snd (comment_on_surroundings w (PDict kvs) st)
                = Returned \<lparr>status_code = 200, body = [(lit ''status'', PStr (lit ''ok''))]\<rparr>)))"
proof (intro conjI impI)
  show "\<exists>p. vehicle_prompt w (PDict kvs) = Inr p
      \<and> (\<forall>r. snd (send_to_msagent w (lit ''CHAT:'' @ p) st) = Returned r \<longrightarrow>
            snd (comment_on_vehicle w (PDict kvs) st)
              = Returned \<lparr>status_code = 200, body = [(lit ''status'', PStr (lit ''ok''))]\<rparr>)"
    unfolding comment_on_vehicle_def
    using send_chat_answers [OF vehicle_prompt_dict] vehicle_prompt_dict by blast
next
  show "\<exists>p. dent_prompt w (PDict kvs) = Inr p
      \<and> (\<forall>r. snd (send_to_msagent w (lit ''CHAT:'' @ p) st) = Returned r \<longrightarrow>
            snd (comment_on_dent w (PDict kvs) st)
              = Returned \<lparr>status_code = 200, body = [(lit ''status'', PStr (lit ''ok''))]\<rparr>)"
    unfolding comment_on_dent_def
    using send_chat_answers [OF dent_prompt_dict] dent_prompt_dict by blast
next
  show "\<exists>p. scratch_prompt w (PDict kvs) = Inr p
      \<and> (\<forall>r. snd (send_to_msagent w (lit ''CHAT:'' @ p) st) = Returned r \<longrightarrow>
            snd (comment_on_scratch w (PDict kvs) st)
              = Returned \<lparr>status_code = 200, body = [(lit ''status'', PStr (lit ''ok''))]\<rparr>)"
    unfolding comment_on_scratch_def
    using send_chat_answers [OF scratch_prompt_dict] scratch_prompt_dict by blast
next
  assume a: "number_if_present kvs (lit ''speed_before'')
      \<and> number_if_present kvs (lit ''damage_level'')"
  then obtain s where s: "py_format_f 0 (field_or kvs (lit ''speed_before'') (PInt 0)) = Inr s"
    using is_number_format [OF field_or_number] by blast
  from a obtain d where d: "py_format_f 1 (field_or kvs (lit ''damage_level'') (PInt 0)) = Inr d"
    using is_number_format [OF field_or_number] by blast
  show "\<exists>p. crash_prompt w (PDict kvs) = Inr p
        \<and> (\<forall>r. snd (send_to_msagent w (lit ''CHAT:'' @ p) st) = Returned r \<longrightarrow>
              snd (comment_on_crash w (PDict kvs) st)
                = Returned \<lparr>status_code = 200, body = [(lit ''status'', PStr (lit ''ok''))]\<rparr>)"
    unfolding comment_on_crash_def
    using send_chat_answers [OF crash_prompt_dict [OF s d]] crash_prompt_dict [OF s d]
    by blast
next
  assume "number_if_present kvs (lit ''speed'')"
  then obtain s where s: "py_format_f 0 (field_or kvs (lit ''speed'') (PInt 0)) = Inr s"
    using is_number_format [OF field_or_number] by blast
  show "\<exists>p. surroundings_prompt w (PDict kvs) = Inr p
        \<and> (\<forall>r. snd (send_to_msagent w (lit ''CHAT:'' @ p) st) = Returned r \<longrightarrow>
              snd (comment_on_surroundings w (PDict kvs) st)
                = Returned \<lparr>status_code = 200, body = [(lit ''status'', PStr (lit ''ok''))]\<rparr>)"
    unfolding comment_on_surroundings_def
    using send_chat_answers [OF surroundings_prompt_dict [OF s]] surroundings_prompt_dict [OF s]
    by blast
qed

theorem event_handlers_answer_ok_witness:
  "number_if_present [(lit ''vehicle_name'', PStr (lit ''ETK K-Series'')),
       (lit ''location'', PStr (lit ''Italy'')), (lit ''speed'', PInt 75)] (lit ''speed'')
   \<and> snd (comment_on_surroundings absent_peer
        (PDict [(lit ''vehicle_name'', PStr (lit ''ETK K-Series'')),
                (lit ''location'', PStr (lit ''Italy'')), (lit ''speed'', PInt 75)]) idle)
       = Returned \<lparr>status_code = 200, body = [(lit ''status'', PStr (lit ''ok''))]\<rparr>
   \<and> snd (comment_on_vehicle absent_peer (PDict []) idle)
       = Returned \<lparr>status_code = 200, body = [(lit ''status'', PStr (lit ''ok''))]\<rparr>"
proof -
  have n: "number_if_present [(lit ''vehicle_name'', PStr (lit ''ETK K-Series'')),
       (lit ''location'', PStr (lit ''Italy'')), (lit ''speed'', PInt 75)] (lit ''speed'')"
    by (simp add: number_if_present_def lit_def int_to_float_small)
  show ?thesis
    using event_handlers_answer_ok
        [of absent_peer "[(lit ''vehicle_name'', PStr (lit ''ETK K-Series'')),
           (lit ''location'', PStr (lit ''Italy'')), (lit ''speed'', PInt 75)]" idle]
      event_handlers_answer_ok [of absent_peer "[]" idle] n absent_peer_send
    by blast
qed

lemma number_if_present_empty: "number_if_present [] key"
  by (simp add: number_if_present_def)


text \<open>
  Claim C5, as stated: for every JSON object as payload the formatting of the command
  never raises, whatever the shape or type of the fields that are present. A field that
  is present is used as it is: with \<open>damage_level\<close> present and \<open>null\<close>, the
  format specification \<open>.1f\<close> raises \<open>TypeError\<close> and no command is produced.
\<close>

theorem crash_null_damage_counterexample:
  "crash_prompt (mock_peer []) (PDict [(lit ''damage_level'', PNone)]) = Inl TypeError"
  by (simp add: crash_prompt_def andthen_def lit_def format_0 del: py_format_f.simps(2))

text \<open>
  Claim C5, amended. For every JSON object as payload a missing field is replaced by its
  default: \<open>Unknown\<close> for \<open>vehicle_name\<close> and \<open>location\<close>, the empty string
  for \<open>vehicle_model\<close>, \<open>0\<close> for \<open>speed_before\<close>, \<open>damage_level\<close> and
  \<open>speed\<close> (printed \<open>0\<close> and \<open>0.0\<close>). The vehicle, dent and scratch prompts are
  always produced, whatever the types of the fields present; the crash and surroundings
  prompts are produced whenever the fields they format as numbers are numbers when
  present.
\<close>

theorem prompts_use_defaults:
  "vehicle_prompt w (PDict kvs) =
     Inr (lit ''I just spawned a ''
          @ py_str (repr w) (field_or kvs (lit ''vehicle_name'') (PStr (lit ''Unknown'')))
          @ lit '' '' @ py_str (repr w) (field_or kvs (lit ''vehicle_model'') (PStr []))
          @ lit '' in BeamNG! Make an excited comment about this vehicle.'')
   \<and> dent_prompt w (PDict kvs) =
     Inr (lit ''My ''
          @ py_str (repr w) (field_or kvs (lit ''vehicle_name'') (PStr (lit ''Unknown'')))
          @ lit '' just got a big dent! Make a comment about the damage.'')
   \<and> scratch_prompt w (PDict kvs) =
     Inr (lit ''Just scratched the paint on my ''
          @ py_str (repr w) (field_or kvs (lit ''vehicle_name'') (PStr (lit ''Unknown'')))
          @ lit ''. Make a light comment.'')
   \<and> (number_if_present kvs (lit ''speed_before'')
      \<and> number_if_present kvs (lit ''damage_level'') \<longrightarrow>
      (\<exists>speed_text damage_text.
         py_format_f 0 (field_or kvs (lit ''speed_before'') (PInt 0)) = Inr speed_text
       \<and> py_format_f 1 (field_or kvs (lit ''damage_level'') (PInt 0)) = Inr damage_text
       \<and> crash_prompt w (PDict kvs) =
           Inr (lit ''I just crashed my ''
                @ py_str (repr w) (field_or kvs (lit ''vehicle_name'') (PStr (lit ''Unknown'')))
                @ lit '' at '' @ speed_text @ lit '' km/h! The damage is pretty bad (''
                @ damage_text @ lit ''). React dramatically!'')))
   \<and> (number_if_present kvs (lit ''speed'') \<longrightarrow>
      (\<exists>speed_text.
         py_format_f 0 (field_or kvs (lit ''speed'') (PInt 0)) = Inr speed_text
       \<and> surroundings_prompt w (PDict kvs) =
           Inr (lit ''I'm driving my ''
                @ py_str (repr w) (field_or kvs (lit ''vehicle_name'') (PStr (lit ''Unknown'')))
                @ lit '' at '' @ speed_text @ lit '' km/h in ''
                @ py_str (repr w) (field_or kvs (lit ''location'') (PStr (lit ''Unknown'')))
                @ lit ''. Comment on the scene!'')))
   \<and> (map_of kvs key = None \<longrightarrow> field_or kvs key dflt = dflt)
   \<and> (map_of kvs key = Some v \<longrightarrow> field_or kvs key dflt = v)
   \<and> py_format_f 0 (PInt 0) = Inr (lit ''0'')
   \<and> py_format_f 1 (PInt 0) = Inr (lit ''0.0'')"
proof (intro conjI impI)
  assume a: "number_if_present kvs (lit ''speed_before'')
      \<and> number_if_present kvs (lit ''damage_level'')"
  then obtain s where s: "py_format_f 0 (field_or kvs (lit ''speed_before'') (PInt 0)) = Inr s"
    using is_number_format [OF field_or_number] by blast
  from a obtain d where d: "py_format_f 1 (field_or kvs (lit ''damage_level'') (PInt 0)) = Inr d"
    using is_number_format [OF field_or_number] by blast
  from s d crash_prompt_dict [OF s d, of w]
  show "\<exists>speed_text damage_text.
         py_format_f 0 (field_or kvs (lit ''speed_before'') (PInt 0)) = Inr speed_text
       \<and> py_format_f 1 (field_or kvs (lit ''damage_level'') (PInt 0)) = Inr damage_text
       \<and> crash_prompt w (PDict kvs) =
           Inr (lit ''I just crashed my ''
                @ py_str (repr w) (field_or kvs (lit ''vehicle_name'') (PStr (lit ''Unknown'')))
                @ lit '' at '' @ speed_text @ lit '' km/h! The damage is pretty bad (''
                @ damage_text @ lit ''). React dramatically!'')"
    by blast
next
  assume "number_if_present kvs (lit ''speed'')"
  then obtain s where s: "py_format_f 0 (field_or kvs (lit ''speed'') (PInt 0)) = Inr s"
    using is_number_format [OF field_or_number] by blast
  from s surroundings_prompt_dict [OF s, of w]
  show "\<exists>speed_text.
         py_format_f 0 (field_or kvs (lit ''speed'') (PInt 0)) = Inr speed_text
       \<and> surroundings_prompt w (PDict kvs) =
           Inr (lit ''I'm driving my ''
                @ py_str (repr w) (field_or kvs (lit ''vehicle_name'') (PStr (lit ''Unknown'')))
                @ lit '' at '' @ speed_text @ lit '' km/h in ''
                @ py_str (repr w) (field_or kvs (lit ''location'') (PStr (lit ''Unknown'')))
                @ lit ''. Comment on the scene!'')"
    by blast
qed (rule vehicle_prompt_dict dent_prompt_dict scratch_prompt_dict format_0 format_0_1
      | simp add: field_or_def)+

theorem prompts_use_defaults_witness:
  "crash_prompt (mock_peer []) (PDict []) =
     Inr (lit ''I just crashed my Unknown at 0 km/h! The damage is pretty bad (0.0). React dramatically!'')
   \<and> surroundings_prompt (mock_peer []) (PDict []) =
     Inr (lit ''I'm driving my Unknown at 0 km/h in Unknown. Comment on the scene!'')
   \<and> vehicle_prompt (mock_peer []) (PDict []) =
     Inr (lit ''I just spawned a Unknown  in BeamNG! Make an excited comment about this vehicle.'')
   \<and> dent_prompt (mock_peer []) (PDict [(lit ''damage_amount'', PNone)]) =
     Inr (lit ''My Unknown just got a big dent! Make a comment about the damage.'')"
proof -
  have f: "field_or [] key dflt = dflt" for key :: pystr and dflt
    by (simp add: field_or_def)
  have g: "field_or [(lit ''damage_amount'', PNone)] (lit ''vehicle_name'') dflt = dflt" for dflt
    by (simp add: field_or_def lit_def)
  have l: "lit ''I just crashed my '' @ lit ''Unknown'' @ lit '' at '' @ lit ''0''
         @ lit '' km/h! The damage is pretty bad ('' @ lit ''0.0'' @ lit ''). React dramatically!''
       = lit ''I just crashed my Unknown at 0 km/h! The damage is pretty bad (0.0). React dramatically!''"
    "lit ''I'm driving my '' @ lit ''Unknown'' @ lit '' at '' @ lit ''0'' @ lit '' km/h in ''
         @ lit ''Unknown'' @ lit ''. Comment on the scene!''
       = lit ''I'm driving my Unknown at 0 km/h in Unknown. Comment on the scene!''"
    "lit ''I just spawned a '' @ lit ''Unknown'' @ lit '' '' @ []
         @ lit '' in BeamNG! Make an excited comment about this vehicle.''
       = lit ''I just spawned a Unknown  in BeamNG! Make an excited comment about this vehicle.''"
    "lit ''My '' @ lit ''Unknown'' @ lit '' just got a big dent! Make a comment about the damage.''
       = lit ''My Unknown just got a big dent! Make a comment about the damage.''"
    by (simp_all add: lit_def)
  note t = prompts_use_defaults [of "mock_peer []" "[]"]
    prompts_use_defaults [of "mock_peer []" "[(lit ''damage_amount'', PNone)]"]
  from t(1) number_if_present_empty
  obtain st dt where cr: "py_format_f 0 (field_or [] (lit ''speed_before'') (PInt 0)) = Inr st"
    "py_format_f 1 (field_or [] (lit ''damage_level'') (PInt 0)) = Inr dt"
    "crash_prompt (mock_peer []) (PDict []) =
       Inr (lit ''I just crashed my ''
            @ py_str (repr (mock_peer [])) (field_or [] (lit ''vehicle_name'') (PStr (lit ''Unknown'')))
            @ lit '' at '' @ st @ lit '' km/h! The damage is pretty bad (''
            @ dt @ lit ''). React dramatically!'')"
    by blast
  have "st = lit ''0''" using cr(1) unfolding f format_0 by simp
  moreover have "dt = lit ''0.0''" using cr(2) unfolding f format_0_1 by simp
  ultimately have c: "crash_prompt (mock_peer []) (PDict []) =
     Inr (lit ''I just crashed my Unknown at 0 km/h! The damage is pretty bad (0.0). React dramatically!'')"
    using cr(3) by (simp only: f py_str.simps l)
  from t(1) number_if_present_empty
  obtain st' where su: "py_format_f 0 (field_or [] (lit ''speed'') (PInt 0)) = Inr st'"
    "surroundings_prompt (mock_peer []) (PDict []) =
       Inr (lit ''I'm driving my ''
            @ py_str (repr (mock_peer [])) (field_or [] (lit ''vehicle_name'') (PStr (lit ''Unknown'')))
            @ lit '' at '' @ st' @ lit '' km/h in ''
            @ py_str (repr (mock_peer [])) (field_or [] (lit ''location'') (PStr (lit ''Unknown'')))
            @ lit ''. Comment on the scene!'')"
    by blast
  have "st' = lit ''0''" using su(1) unfolding f format_0 by simp
  then have s: "surroundings_prompt (mock_peer []) (PDict []) =
     Inr (lit ''I'm driving my Unknown at 0 km/h in Unknown. Comment on the scene!'')"
    using su(2) by (simp only: f py_str.simps l)
  have v: "vehicle_prompt (mock_peer []) (PDict []) =
     Inr (lit ''I just spawned a Unknown  in BeamNG! Make an excited comment about this vehicle.'')"
    using t(1) by (simp only: f py_str.simps l)
  have d: "dent_prompt (mock_peer []) (PDict [(lit ''damage_amount'', PNone)]) =
     Inr (lit ''My Unknown just got a big dent! Make a comment about the damage.'')"
    using t(2) by (simp only: g py_str.simps l)
  from c s v d show ?thesis by blast
qed

lemma field_or_cong:
  "map_of kvs1 key = map_of kvs2 key \<Longrightarrow> field_or kvs1 key dflt = field_or kvs2 key dflt"
  by (simp add: field_or_def)


text \<open>
  Claim C10. Two JSON objects sent to the dent route that agree on \<open>vehicle_name\<close>
  (the same value, or absent in both) give the same prompt, the same calls on the pipe
  with the same bytes written, and the same answer; \<open>damage_amount\<close> is read and not
  used. The same holds for the scratch route.
\<close>

theorem dent_and_scratch_read_vehicle_name_only:
  assumes "map_of kvs1 (lit ''vehicle_name'') = map_of kvs2 (lit ''vehicle_name'')"
  shows "dent_prompt w (PDict kvs1) = dent_prompt w (PDict kvs2)
    \<and> comment_on_dent w (PDict kvs1) st = comment_on_dent w (PDict kvs2) st
    \<and> scratch_prompt w (PDict kvs1) = scratch_prompt w (PDict kvs2)
    \<and> comment_on_scratch w (PDict kvs1) st = comment_on_scratch w (PDict kvs2) st"
  using field_or_cong [OF assms]
  by (simp add: comment_on_dent_def comment_on_scratch_def dent_prompt_dict
      scratch_prompt_dict)

theorem dent_and_scratch_read_vehicle_name_only_witness:
  "map_of [(lit ''vehicle_name'', PStr (lit ''Pessima'')), (lit ''damage_amount'', PInt 1)]
       (lit ''vehicle_name'')
     = map_of [(lit ''damage_amount'', PStr (lit ''huge'')), (lit ''total_damage'', PNone),
               (lit ''vehicle_name'', PStr (lit ''Pessima''))] (lit ''vehicle_name'')
   \<and> comment_on_dent (mock_peer (lit ''OK:ack''))
        (PDict [(lit ''vehicle_name'', PStr (lit ''Pessima'')), (lit ''damage_amount'', PInt 1)])
        idle
     = comment_on_dent (mock_peer (lit ''OK:ack''))
        (PDict [(lit ''damage_amount'', PStr (lit ''huge'')), (lit ''total_damage'', PNone),
                (lit ''vehicle_name'', PStr (lit ''Pessima''))]) idle
   \<and> comment_on_scratch (mock_peer (lit ''OK:ack''))
        (PDict [(lit ''vehicle_name'', PStr (lit ''Pessima'')), (lit ''damage_amount'', PInt 1)])
        idle
     = comment_on_scratch (mock_peer (lit ''OK:ack''))
        (PDict [(lit ''damage_amount'', PStr (lit ''huge'')), (lit ''total_damage'', PNone),
                (lit ''vehicle_name'', PStr (lit ''Pessima''))]) idle"
proof -
  have h: "map_of [(lit ''vehicle_name'', PStr (lit ''Pessima'')), (lit ''damage_amount'', PInt 1)]
       (lit ''vehicle_name'')
     = map_of [(lit ''damage_amount'', PStr (lit ''huge'')), (lit ''total_damage'', PNone),
               (lit ''vehicle_name'', PStr (lit ''Pessima''))] (lit ''vehicle_name'')"
    by (simp add: lit_def)
  from dent_and_scratch_read_vehicle_name_only [OF h, of "mock_peer (lit ''OK:ack'')" idle] h
  show ?thesis by blast
qed

end
